theory Spec2Isabelle
  imports Complex_Main
begin

section \<open>Python values, errors and NumPy indexing\<close>

text \<open>
  The exceptions that the decomposition code can raise.  \<open>SystemExit\<close> is what
  \<^verbatim>\<open>sys.exit('bug')\<close> raises; \<open>TypeError\<close> is raised by \<^verbatim>\<open>warnings.warn\<close> when its
  second argument is not a warning class; \<open>AttributeError\<close> by the lookup of a name a
  module does not have; \<open>ValueError\<close> by NumPy on arrays of incompatible shape.
\<close>

datatype error = IndexError | ValueError | TypeError | AttributeError | SystemExit

fun bind_e :: "error + 'a \<Rightarrow> ('a \<Rightarrow> error + 'b) \<Rightarrow> error + 'b" where
  "bind_e (Inl e) f = Inl e"
| "bind_e (Inr v) f = f v"

text \<open>\<^verbatim>\<open>a[i]\<close>: a negative index counts from the end, an index out of range raises.\<close>

definition getitem :: "'a list \<Rightarrow> int \<Rightarrow> error + 'a" where
  "getitem xs i =
     (if 0 \<le> i \<and> i < int (length xs) then Inr (xs ! nat i)
      else if i < 0 \<and> - int (length xs) \<le> i then Inr (xs ! nat (int (length xs) + i))
      else Inl IndexError)"

text \<open>\<^verbatim>\<open>a[idx]\<close> with an integer array \<open>idx\<close>: every index is read as above.\<close>

fun take_idx :: "'a list \<Rightarrow> int list \<Rightarrow> error + 'a list" where
  "take_idx xs [] = Inr []"
| "take_idx xs (i # is) =
     bind_e (getitem xs i) (\<lambda>v. bind_e (take_idx xs is) (\<lambda>vs. Inr (v # vs)))"

text \<open>
  \<^verbatim>\<open>a[lo:hi]\<close>: a negative bound counts from the end, and bounds are clipped to the
  array, so a slice never raises.
\<close>

definition clip_bound :: "nat \<Rightarrow> int \<Rightarrow> nat" where
  "clip_bound n k = (if k < 0 then nat (max (int n + k) 0) else min (nat k) n)"

definition slice :: "'a list \<Rightarrow> int \<Rightarrow> int \<Rightarrow> 'a list" where
  "slice xs lo hi =
     (let l = clip_bound (length xs) lo; h = clip_bound (length xs) hi
      in take (h - l) (drop l xs))"

text \<open>\<^verbatim>\<open>a[:hi]\<close> and \<^verbatim>\<open>a[lo:]\<close>.\<close>

definition slice_to :: "'a list \<Rightarrow> int \<Rightarrow> 'a list" where
  "slice_to xs hi = take (clip_bound (length xs) hi) xs"

definition slice_from :: "'a list \<Rightarrow> int \<Rightarrow> 'a list" where
  "slice_from xs lo = drop (clip_bound (length xs) lo) xs"

text \<open>\<^verbatim>\<open>np.diff\<close> of a one-dimensional sequence.\<close>

fun diff_list :: "'a::minus list \<Rightarrow> 'a list" where
  "diff_list (x # y # zs) = (y - x) # diff_list (y # zs)"
| "diff_list _ = []"

text \<open>\<^verbatim>\<open>np.where(p)[0]\<close>: the positions at which a condition holds, in order.\<close>

definition where_idx :: "('a \<Rightarrow> bool) \<Rightarrow> 'a list \<Rightarrow> int list" where
  "where_idx p xs = map int (filter (\<lambda>i. p (xs ! i)) [0..<length xs])"

section \<open>Extrema detector\<close>

text \<open>
  \<^verbatim>\<open>peaks(X)\<close>: positions \<open>i + 1\<close> at which the sign of the difference goes from
  positive to negative.  Only the positions are modelled; the values \<^verbatim>\<open>X[locs]\<close> have
  the same length.
\<close>

definition peaks :: "real list \<Rightarrow> int list" where
  "peaks X =
     (let dX = map sgn (diff_list X)
      in map (\<lambda>i. int i + 1)
           (filter (\<lambda>i. dX ! i > 0 \<and> dX ! Suc i < 0) [0..<length dX - 1]))"

text \<open>
  The flat-run collapse of \<^verbatim>\<open>local_peaks\<close>:
  \<^verbatim>\<open>lm = np.where(np.diff(a)!=1)[0] + 1; d = a[lm] - a[lm-1]; a[lm] = a[lm] - np.floor(d/2)\<close>.
  The differences are taken from the array before it is updated.
\<close>

definition collapse_flat :: "int list \<Rightarrow> int list" where
  "collapse_flat a =
     map (\<lambda>k. if 0 < k \<and> a ! k - a ! (k - 1) \<noteq> 1
              then a ! k - (a ! k - a ! (k - 1)) div 2 else a ! k)
       [0..<length a]"

text \<open>
  The detection proper, lines 364 to 395 of \<^verbatim>\<open>local_peaks\<close>, on a column \<open>x\<close>:
  returns \<open>(indmin, indmax)\<close>.
\<close>

definition extrema :: "real list \<Rightarrow> error + (int list \<times> int list)" where
  "extrema x =
     (let m = int (length x) - 1;
          dy = diff_list x;
          a = collapse_flat (where_idx (\<lambda>d. d \<noteq> 0) dy) @ [m]
      in bind_e (take_idx x a) (\<lambda>ya.
           if length ya > 1
           then (let loc_max = peaks ya; loc_min = peaks (map uminus ya)
                 in bind_e (if length loc_min > 0 then take_idx a loc_min else Inr []) (\<lambda>indmin.
                    bind_e (if length loc_max > 0 then take_idx a loc_max else Inr []) (\<lambda>indmax.
                      Inr (indmin, indmax))))
           else Inr ([], [])))"

text \<open>
  The test of line 361, \<^verbatim>\<open>all(x < 1e-5)\<close>: it compares the samples themselves, not
  their absolute values.
\<close>

definition degenerate :: "real list \<Rightarrow> bool" where
  "degenerate x = list_all (\<lambda>v. v < 1 / 10 ^ 5) x"

text \<open>
  \<^verbatim>\<open>local_peaks(x)\<close>.  When the test holds, \<open>x\<close> is replaced by
  \<^verbatim>\<open>np.zeros((1,len(x)))\<close>, an array with one row: then \<^verbatim>\<open>m = 0\<close>, the difference is
  taken along an axis of length one and is empty, \<open>a\<close> is \<open>[0]\<close>, \<open>ya\<close> has a
  single row, and both index arrays are returned empty.
\<close>

definition local_peaks :: "real list \<Rightarrow> error + (int list \<times> int list)" where
  "local_peaks x = (if degenerate x then Inr ([], []) else extrema x)"

section \<open>Zero crossings\<close>

text \<open>
  The samples are float64 numbers.  The product of two of them that has magnitude at
  most \<open>2^-1075\<close>, half the smallest positive float64, is rounded to a zero; a larger one
  keeps its sign.  So the test \<^verbatim>\<open>a*b < 0\<close> on the rounded product holds exactly when
  the product is below \<open>-2^-1075\<close>.
\<close>

definition underflow :: real where
  "underflow = 1 / 2 ^ 1075"

definition product_negative :: "real \<Rightarrow> real \<Rightarrow> bool" where
  "product_negative a b = (a * b < - underflow)"

text \<open>
  \<^verbatim>\<open>zero_crossings(x)\<close> on a column \<open>x\<close>.  Sign changes first, by the test
  \<^verbatim>\<open>x[0:-1]*x[1:]<0\<close>.  When some sample is exactly zero, the positions of the zeros
  are merged in.  When two zeros are adjacent the source evaluates
  \<^verbatim>\<open>np.diff([0,zer,0])\<close> on a list holding two integers and the boolean array \<open>zer\<close>:
  NumPy (1.24 and later) cannot form an array from that ragged list and raises
  \<open>ValueError\<close>, so that branch never returns.
\<close>

definition zero_crossings :: "real list \<Rightarrow> error + int list" where
  "zero_crossings x =
     (let indzer = where_idx (\<lambda>(a, b). product_negative a b) (zip (butlast x) (tl x))
      in if list_ex (\<lambda>v. v = 0) x
         then (let iz = where_idx (\<lambda>v. v = 0) x
               in if list_ex (\<lambda>d. d = 1) (diff_list iz)
                  then Inl ValueError
                  else Inr (sort (indzer @ iz)))
         else Inr indzer)"

section \<open>Boundary extender\<close>

type_synonym matrix = "real list list"

text \<open>
  \<^verbatim>\<open>2*t[lsym]-t[lmin]\<close> and its three siblings: the mirror images of the times at
  the indices \<open>idx\<close> around the time at the index \<open>centre\<close>.
\<close>

definition mirror :: "int list \<Rightarrow> int \<Rightarrow> int list \<Rightarrow> error + int list" where
  "mirror t centre idx =
     bind_e (getitem t centre) (\<lambda>ts.
     bind_e (take_idx t idx) (\<lambda>tv. Inr (map (\<lambda>v. 2 * ts - v) tv)))"

text \<open>
  Lines 145 to 165: the left symmetry point and the extrema mirrored on the left,
  \<open>(lmax, lmin, lsym)\<close>.
\<close>

definition left_sym ::
  "int list \<Rightarrow> int list \<Rightarrow> real list \<Rightarrow> int \<Rightarrow> error + (int list \<times> int list \<times> int)" where
  "left_sym indmin indmax x nbsym =
     (let end_max = int (length indmax) - 1; end_min = int (length indmin) - 1
      in bind_e (getitem indmax 0) (\<lambda>max0.
         bind_e (getitem indmin 0) (\<lambda>min0.
         bind_e (getitem x 0) (\<lambda>x0.
           if max0 < min0
           then bind_e (getitem x min0) (\<lambda>xm.
                  if x0 > xm
                  then Inr (rev (slice indmax 1 (min (end_max + 1) (nbsym + 1))),
                            rev (slice_to indmin (min (end_min + 1) nbsym)),
                            max0)
                  else Inr (rev (slice_to indmax (min (end_max + 1) nbsym)),
                            rev (slice_to indmin (min (end_min + 1) (nbsym - 1))) @ [0],
                            0))
           else bind_e (getitem x max0) (\<lambda>xM.
                  if x0 < xM
                  then Inr (rev (slice_to indmax (min (end_max + 1) nbsym)),
                            rev (slice indmin 1 (min (end_min + 1) (nbsym + 1))),
                            min0)
                  else Inr (rev (slice_to indmax (min (end_max + 1) (nbsym - 1))) @ [0],
                            rev (slice_to indmin (min (end_min + 1) nbsym)),
                            0))))))"

text \<open>Lines 167 to 187: the same on the right, \<open>(rmax, rmin, rsym)\<close>.\<close>

definition right_sym ::
  "int list \<Rightarrow> int list \<Rightarrow> real list \<Rightarrow> int \<Rightarrow> error + (int list \<times> int list \<times> int)" where
  "right_sym indmin indmax x nbsym =
     (let lx = int (length x) - 1;
          end_max = int (length indmax) - 1; end_min = int (length indmin) - 1
      in bind_e (getitem indmax (- 1)) (\<lambda>maxL.
         bind_e (getitem indmin (- 1)) (\<lambda>minL.
         bind_e (getitem x (- 1)) (\<lambda>xL.
           if maxL < minL
           then bind_e (getitem x maxL) (\<lambda>xM.
                  if xL < xM
                  then Inr (rev (slice_from indmax (max (end_max - nbsym + 1) 0)),
                            rev (slice indmin (max (end_min - nbsym) 0) (- 1)),
                            minL)
                  else Inr ([lx] @ rev (slice_from indmax (max (end_max - nbsym + 2) 0)),
                            rev (slice_from indmin (max (end_min - nbsym + 1) 0)),
                            lx))
           else bind_e (getitem x minL) (\<lambda>xm.
                  if xL > xm
                  then Inr (rev (slice indmax (max (end_max - nbsym) 0) (- 1)),
                            rev (slice_from indmin (max (end_min - nbsym + 1) 0)),
                            maxL)
                  else Inr (rev (slice_from indmax (max (end_max - nbsym + 1) 0)),
                            [lx] @ rev (slice_from indmin (max (end_min - nbsym + 2) 0)),
                            lx))))))"

text \<open>
  The test \<^verbatim>\<open>a[i] > b or c[i] > b\<close> of lines 195 and 206, with Python's evaluation
  order: the second array is read only when the first comparison is false.
\<close>

definition either_beyond ::
  "(int \<Rightarrow> int \<Rightarrow> bool) \<Rightarrow> int list \<Rightarrow> int list \<Rightarrow> int \<Rightarrow> int \<Rightarrow> error + bool" where
  "either_beyond cmp ta tb i bound =
     bind_e (getitem ta i) (\<lambda>a.
       if cmp a bound then Inr True
       else bind_e (getitem tb i) (\<lambda>b. Inr (cmp b bound)))"

text \<open>
  Lines 194 to 204, the left fallback: returns \<open>(lmax, lmin, tlmax, tlmin)\<close>.  The
  abort test compares the symmetry point with \<open>1\<close>.
\<close>

definition left_fallback ::
  "int list \<Rightarrow> int list \<Rightarrow> int list \<Rightarrow> int \<Rightarrow> int list \<Rightarrow> int list \<Rightarrow> int
     \<Rightarrow> error + (int list \<times> int list \<times> int list \<times> int list)" where
  "left_fallback indmin indmax t nbsym lmax lmin lsym =
     (let end_max = int (length indmax) - 1; end_min = int (length indmin) - 1
      in bind_e (mirror t lsym lmin) (\<lambda>tlmin.
         bind_e (mirror t lsym lmax) (\<lambda>tlmax.
         bind_e (getitem t 0) (\<lambda>t0.
         bind_e (either_beyond (\<lambda>a b. a > b) tlmin tlmax 0 t0) (\<lambda>short.
           if short
           then bind_e (getitem indmax 0) (\<lambda>max0.
                  let lmax' = (if lsym = max0 then rev (slice_to indmax (min (end_max + 1) nbsym))
                               else lmax);
                      lmin' = (if lsym = max0 then lmin
                               else rev (slice_to indmin (min (end_min + 1) nbsym)))
                  in if lsym = 1 then Inl SystemExit
                     else bind_e (mirror t 0 lmin') (\<lambda>tlmin'.
                          bind_e (mirror t 0 lmax') (\<lambda>tlmax'.
                            Inr (lmax', lmin', tlmax', tlmin'))))
           else Inr (lmax, lmin, tlmax, tlmin))))))"

text \<open>
  Lines 206 to 215, the right fallback: returns \<open>(rmax, rmin, trmax, trmin)\<close>.  The
  abort test compares the symmetry point with \<open>lx = len(x) - 1\<close>.
\<close>

definition right_fallback ::
  "int list \<Rightarrow> int list \<Rightarrow> int list \<Rightarrow> int \<Rightarrow> int \<Rightarrow> int list \<Rightarrow> int list \<Rightarrow> int
     \<Rightarrow> error + (int list \<times> int list \<times> int list \<times> int list)" where
  "right_fallback indmin indmax t nbsym lx rmax rmin rsym =
     (let end_max = int (length indmax) - 1; end_min = int (length indmin) - 1
      in bind_e (mirror t rsym rmin) (\<lambda>trmin.
         bind_e (mirror t rsym rmax) (\<lambda>trmax.
         bind_e (getitem t lx) (\<lambda>tl.
         bind_e (either_beyond (\<lambda>a b. a < b) trmin trmax (- 1) tl) (\<lambda>short.
           if short
           then bind_e (getitem indmax (- 1)) (\<lambda>maxL.
                  let rmax' = (if rsym = maxL
                               then rev (slice_from indmax (max (end_max - nbsym + 1) 0))
                               else rmax);
                      rmin' = (if rsym = maxL then rmin
                               else rev (slice_from indmin (max (end_min - nbsym + 1) 0)))
                  in if rsym = lx then Inl SystemExit
                     else bind_e (mirror t lx rmin') (\<lambda>trmin'.
                          bind_e (mirror t lx rmax') (\<lambda>trmax'.
                            Inr (rmax', rmin', trmax', trmin'))))
           else Inr (rmax, rmin, trmax, trmin))))))"

text \<open>
  \<^verbatim>\<open>boundary_conditions(indmin,indmax,t,x,z,nbsym)\<close>.  The source returns
  \<open>(tmin, tmax, zmin, zmax, mode)\<close> with \<open>mode = 0\<close> and four \<open>None\<close> when there are
  fewer than three extrema; the model returns \<open>None\<close> then, and
  \<open>Some (tmin, tmax, zmin, zmax)\<close> for \<open>mode = 1\<close>.  The time differences of line 189
  to 192 are computed before the left fallback runs, so a failure there comes first.
\<close>

definition boundary_conditions ::
  "int list \<Rightarrow> int list \<Rightarrow> int list \<Rightarrow> real list \<Rightarrow> 'z list \<Rightarrow> int
     \<Rightarrow> error + (int list \<times> int list \<times> 'z list \<times> 'z list) option" where
  "boundary_conditions indmin indmax t x z nbsym =
     (let lx = int (length x) - 1
      in if length indmin + length indmax < 3 then Inr None
         else
           bind_e (left_sym indmin indmax x nbsym) (\<lambda>(lmax, lmin, lsym).
           bind_e (right_sym indmin indmax x nbsym) (\<lambda>(rmax, rmin, rsym).
           bind_e (mirror t lsym lmin) (\<lambda>_.
           bind_e (mirror t lsym lmax) (\<lambda>_.
           bind_e (mirror t rsym rmin) (\<lambda>_.
           bind_e (mirror t rsym rmax) (\<lambda>_.
           bind_e (left_fallback indmin indmax t nbsym lmax lmin lsym)
             (\<lambda>(lmax, lmin, tlmax, tlmin).
           bind_e (right_fallback indmin indmax t nbsym lx rmax rmin rsym)
             (\<lambda>(rmax, rmin, trmax, trmin).
           bind_e (take_idx z lmax) (\<lambda>zlmax.
           bind_e (take_idx z lmin) (\<lambda>zlmin.
           bind_e (take_idx z rmax) (\<lambda>zrmax.
           bind_e (take_idx z rmin) (\<lambda>zrmin.
           bind_e (take_idx t indmin) (\<lambda>tmid_min.
           bind_e (take_idx t indmax) (\<lambda>tmid_max.
           bind_e (take_idx z indmin) (\<lambda>zmid_min.
           bind_e (take_idx z indmax) (\<lambda>zmid_max.
             Inr (Some (tlmin @ tmid_min @ trmin, tlmax @ tmid_max @ trmax,
                        zlmin @ zmid_min @ zrmin, zlmax @ zmid_max @ zrmax))
           )))))))))))))))))"

section \<open>Direction vectors\<close>

text \<open>\<^verbatim>\<open>a[i] = v\<close> on an array: the same index rule as for reading.\<close>

definition setitem :: "'a list \<Rightarrow> int \<Rightarrow> 'a \<Rightarrow> error + 'a list" where
  "setitem xs i v =
     (if 0 \<le> i \<and> i < int (length xs) then Inr (xs[nat i := v])
      else if i < 0 \<and> - int (length xs) \<le> i then Inr (xs[nat (int (length xs) + i) := v])
      else Inl IndexError)"

text \<open>
  \<^verbatim>\<open>np.arctan2(y, x)\<close> on reals: the angle of the point \<open>(x, y)\<close> in \<open>(-\<pi>, \<pi>]\<close>,
  and \<open>0\<close> at the origin.
\<close>

definition arctan2 :: "real \<Rightarrow> real \<Rightarrow> real" where
  "arctan2 y x =
     (if 0 < x then arctan (y / x)
      else if x < 0 then (if 0 \<le> y then arctan (y / x) + pi else arctan (y / x) - pi)
      else if 0 < y then pi / 2
      else if y < 0 then - (pi / 2)
      else 0)"

fun cumsum :: "real \<Rightarrow> real list \<Rightarrow> real list" where
  "cumsum acc [] = []"
| "cumsum acc (v # vs) = (acc + v) # cumsum (acc + v) vs"

text \<open>
  Lines 240 and 241, the loop \<^verbatim>\<open>for i in range(1, N_dim)\<close>:
  \<^verbatim>\<open>dir_vec[i] = np.sin(tht[i-1]) * np.prod(np.cos(tht[:i-1]))\<close>.
\<close>

fun fill_dir :: "real list \<Rightarrow> real list \<Rightarrow> nat list \<Rightarrow> error + real list" where
  "fill_dir tht dir_vec [] = Inr dir_vec"
| "fill_dir tht dir_vec (i # is) =
     bind_e (getitem tht (int i - 1)) (\<lambda>a.
     bind_e (setitem dir_vec (int i)
               (sin a * prod_list (map cos (slice_to tht (int i - 1))))) (\<lambda>d.
       fill_dir tht d is))"

text \<open>
  \<^verbatim>\<open>make_dir_vectors(seq, it, N_dim, dir_vec)\<close>.  \<open>b[:0:-1]\<close> is \<open>b\<close> without its
  first entry, reversed.  The two arguments of \<^verbatim>\<open>np.arctan2\<close> have the same length
  when the row of \<open>seq\<close> has \<open>N_dim\<close> entries; arguments of different lengths are
  reported as \<open>ValueError\<close>.  The first entry of \<open>dir_vec\<close> is set to \<open>1.0\<close> and is written again only
  when \<open>N_dim = 1\<close>.
\<close>

definition make_dir_vectors ::
  "matrix \<Rightarrow> int \<Rightarrow> nat \<Rightarrow> real list \<Rightarrow> error + real list" where
  "make_dir_vectors seq it N_dim dir_vec =
     bind_e (getitem seq it) (\<lambda>row.
       let b = map (\<lambda>s. 2 * s - 1) row;
           tails = rev (cumsum 0 (map (\<lambda>v. v ^ 2) (rev (tl b))));
           heads = slice_to b (int N_dim - 1)
       in if length tails \<noteq> length heads then Inl ValueError
          else
            let tht = map2 arctan2 (map sqrt tails) heads
            in bind_e (setitem dir_vec 0 1) (\<lambda>d0.
               bind_e (fill_dir tht d0 [1..<N_dim]) (\<lambda>d1.
                 setitem d1 (int N_dim - 1) (prod_list (map cos tht)))))"

text \<open>
  Lines 261 to 275 (and 407 to 421): the closed form for three channels.
\<close>

definition dir_vec3 :: "matrix \<Rightarrow> int \<Rightarrow> real list \<Rightarrow> error + real list" where
  "dir_vec3 seq it dir_vec =
     bind_e (getitem seq it) (\<lambda>row.
     bind_e (getitem row 0) (\<lambda>s0.
       let tt0 = 2 * s0 - 1;
           tt = (if tt0 > 1 then 1 else if tt0 < - 1 then - 1 else tt0)
       in bind_e (getitem row 1) (\<lambda>s1.
            let phirad = s1 * 2 * pi; st = sqrt (1 - tt * tt)
            in bind_e (setitem dir_vec 0 (st * cos phirad)) (\<lambda>d0.
               bind_e (setitem d0 1 (st * sin phirad)) (\<lambda>d1.
                 setitem d1 2 tt)))))"

definition direction :: "matrix \<Rightarrow> int \<Rightarrow> nat \<Rightarrow> real list \<Rightarrow> error + real list" where
  "direction seq it N_dim dir_vec =
     (if N_dim \<noteq> 3 then make_dir_vectors seq it N_dim dir_vec else dir_vec3 seq it dir_vec)"

definition sq_norm :: "real list \<Rightarrow> real" where
  "sq_norm v = sum_list (map (\<lambda>c. c ^ 2) v)"

section \<open>Envelope estimator\<close>

definition zeros :: "nat \<Rightarrow> nat \<Rightarrow> matrix" where
  "zeros n k = replicate n (replicate k 0)"

text \<open>
  \<^verbatim>\<open>np.dot(m, dir_vec)\<close>: every row of \<open>m\<close> against the direction; the row length
  must be the length of the direction.
\<close>

definition dot :: "matrix \<Rightarrow> real list \<Rightarrow> error + real list" where
  "dot m d =
     (if list_all (\<lambda>row. length row = length d) m
      then Inr (map (\<lambda>row. sum_list (map2 (*) row d)) m)
      else Inl ValueError)"

definition madd :: "matrix \<Rightarrow> matrix \<Rightarrow> matrix" where
  "madd a b = map2 (map2 (+)) a b"

definition msub :: "matrix \<Rightarrow> matrix \<Rightarrow> matrix" where
  "msub a b = map2 (map2 (-)) a b"

definition mscale :: "real \<Rightarrow> matrix \<Rightarrow> matrix" where
  "mscale c a = map (map (\<lambda>v. v / c)) a"

definition has_shape :: "nat \<Rightarrow> nat \<Rightarrow> matrix \<Rightarrow> bool" where
  "has_shape n k a = (length a = n \<and> list_all (\<lambda>row. length row = k) a)"

text \<open>
  The accumulators of \<^verbatim>\<open>envelope_mean\<close>: the running mean envelope and amplitude, the
  extrema and zero-crossing counts per direction, the number of directions without
  envelope, and the direction array that \<^verbatim>\<open>make_dir_vectors\<close> overwrites in place.
\<close>

record env_acc =
  acc_env_mean :: matrix
  acc_amp :: "real list"
  acc_nem :: "int list"
  acc_nzm :: "int list"
  acc_count :: nat
  acc_dir_vec :: "real list"

text \<open>
  One pass of the loop of lines 257 to 299.  \<open>spline tk zk t\<close> stands for SciPy's
  \<^verbatim>\<open>CubicSpline(tk,zk,bc_type='not-a-knot')(t)\<close>, which is not part of this
  repository: it returns one row per element of \<open>t\<close>, with as many columns as \<open>zk\<close>,
  or raises.  A result of another shape is reported as \<open>ValueError\<close>.
\<close>

definition envelope_step ::
  "(int list \<Rightarrow> matrix \<Rightarrow> int list \<Rightarrow> error + matrix)
     \<Rightarrow> matrix \<Rightarrow> int list \<Rightarrow> matrix \<Rightarrow> nat \<Rightarrow> env_acc \<Rightarrow> nat \<Rightarrow> error + env_acc" where
  "envelope_step spline m t seq N_dim acc it =
     bind_e (direction seq (int it) N_dim (acc_dir_vec acc)) (\<lambda>d.
     bind_e (dot m d) (\<lambda>y.
     bind_e (local_peaks y) (\<lambda>(indmin, indmax).
     bind_e (zero_crossings y) (\<lambda>indzer.
       let acc1 = acc\<lparr>acc_dir_vec := d,
                      acc_nem := (acc_nem acc)[it := int (length indmin) + int (length indmax)],
                      acc_nzm := (acc_nzm acc)[it := int (length indzer)]\<rparr>
       in bind_e (boundary_conditions indmin indmax t y m 2) (\<lambda>bc.
            case bc of
              None \<Rightarrow> Inr (acc1\<lparr>acc_count := acc_count acc1 + 1\<rparr>)
            | Some (tmin, tmax, zmin, zmax) \<Rightarrow>
                bind_e (spline tmin zmin t) (\<lambda>env_min.
                bind_e (spline tmax zmax t) (\<lambda>env_max.
                  if has_shape (length t) N_dim env_min \<and> has_shape (length t) N_dim env_max
                  then Inr (acc1\<lparr>
                         acc_amp := map2 (+) (acc_amp acc1)
                                  (map (\<lambda>row. sqrt (sum_list (map (\<lambda>v. v ^ 2) row)) / 2)
                                     (msub env_max env_min)),
                         acc_env_mean := madd (acc_env_mean acc1)
                                       (map (map (\<lambda>v. v / 2)) (madd env_max env_min))\<rparr>)
                  else Inl ValueError)))))))"

fun envelope_loop ::
  "(int list \<Rightarrow> matrix \<Rightarrow> int list \<Rightarrow> error + matrix)
     \<Rightarrow> matrix \<Rightarrow> int list \<Rightarrow> matrix \<Rightarrow> nat \<Rightarrow> env_acc \<Rightarrow> nat list \<Rightarrow> error + env_acc" where
  "envelope_loop spline m t seq N_dim acc [] = Inr acc"
| "envelope_loop spline m t seq N_dim acc (it # its) =
     bind_e (envelope_step spline m t seq N_dim acc it) (\<lambda>acc'.
       envelope_loop spline m t seq N_dim acc' its)"

text \<open>
  Lines 301 to 309: the average over the directions that gave an envelope, or zeros
  when none did.
\<close>

definition envelope_finish ::
  "nat \<Rightarrow> nat \<Rightarrow> nat \<Rightarrow> env_acc \<Rightarrow> matrix \<times> int list \<times> int list \<times> real list" where
  "envelope_finish ndir N N_dim acc =
     (if ndir > acc_count acc
      then (mscale (real (ndir - acc_count acc)) (acc_env_mean acc), acc_nem acc, acc_nzm acc,
            map (\<lambda>v. v / real (ndir - acc_count acc)) (acc_amp acc))
      else (zeros N N_dim, replicate ndir 0, acc_nzm acc, replicate N 0))"

text \<open>\<^verbatim>\<open>envelope_mean(m,t,seq,ndir,N,N_dim)\<close>: returns \<open>(env_mean, nem, nzm, amp)\<close>.\<close>

definition envelope_mean ::
  "(int list \<Rightarrow> matrix \<Rightarrow> int list \<Rightarrow> error + matrix)
     \<Rightarrow> matrix \<Rightarrow> int list \<Rightarrow> matrix \<Rightarrow> nat \<Rightarrow> nat \<Rightarrow> nat
     \<Rightarrow> error + (matrix \<times> int list \<times> int list \<times> real list)" where
  "envelope_mean spline m t seq ndir N N_dim =
     bind_e (envelope_loop spline m t seq N_dim
               \<lparr>acc_env_mean = zeros (length t) N_dim, acc_amp = replicate (length t) 0,
                acc_nem = replicate ndir 0, acc_nzm = replicate ndir 0, acc_count = 0,
                acc_dir_vec = replicate N_dim 0\<rparr>
               [0..<ndir]) (\<lambda>acc.
       Inr (envelope_finish ndir N N_dim acc))"

section \<open>Stopping evaluators\<close>

text \<open>
  \<^verbatim>\<open>stop(m,t,sd,sd2,tol,seq,ndir,N,N_dim)\<close>.  The bare \<^verbatim>\<open>except:\<close> catches every
  exception, \<open>SystemExit\<close> included, and answers with a stop and a zero envelope.
  \<^verbatim>\<open>np.mean\<close> of an empty array is \<open>nan\<close>, which compares false.
\<close>

definition stop ::
  "(int list \<Rightarrow> matrix \<Rightarrow> int list \<Rightarrow> error + matrix)
     \<Rightarrow> matrix \<Rightarrow> int list \<Rightarrow> real \<Rightarrow> real \<Rightarrow> real \<Rightarrow> matrix \<Rightarrow> nat \<Rightarrow> nat \<Rightarrow> nat
     \<Rightarrow> bool \<times> matrix" where
  "stop spline m t sd sd2 tol seq ndir N N_dim =
     (case envelope_mean spline m t seq ndir N N_dim of
        Inl e \<Rightarrow> (True, zeros N N_dim)
      | Inr (env_mean, nem, nzm, amp) \<Rightarrow>
          let sx0 = map (\<lambda>row. sqrt (sum_list (map (\<lambda>v. v ^ 2) row))) env_mean;
              sx = (if list_all (\<lambda>a. a \<noteq> 0) amp then map2 (/) sx0 amp else sx0);
              mean_above = (sx \<noteq> [] \<and>
                            real (length (filter (\<lambda>v. v > sd) sx)) / real (length sx) > tol)
          in (\<not> ((mean_above \<or> list_ex (\<lambda>v. v > sd2) sx) \<and> list_ex (\<lambda>n. n > 2) nem),
              env_mean))"

text \<open>The test of line 338, \<^verbatim>\<open>all(np.abs(nzm-nem)>1)\<close>.\<close>

definition counts_differ :: "int list \<Rightarrow> int list \<Rightarrow> bool" where
  "counts_differ nem nzm = list_all (\<lambda>d. \<bar>d\<bar> > 1) (map2 (-) nzm nem)"

text \<open>
  The body of \<^verbatim>\<open>fix\<close> after the call of \<^verbatim>\<open>envelope_mean\<close>, whose outcome is the first
  argument: returns \<open>(stp, env_mean, counter)\<close>.
\<close>

definition fix_verdict ::
  "error + (matrix \<times> int list \<times> int list \<times> real list) \<Rightarrow> int \<Rightarrow> int \<Rightarrow> nat \<Rightarrow> nat
     \<Rightarrow> bool \<times> matrix \<times> int" where
  "fix_verdict em stp_cnt counter N N_dim =
     (case em of
        Inl e \<Rightarrow> (True, zeros N N_dim, counter)
      | Inr (env_mean, nem, nzm, amp) \<Rightarrow>
          if counts_differ nem nzm then (False, env_mean, 0)
          else (counter + 1 \<ge> stp_cnt, env_mean, counter + 1))"

text \<open>
  \<^verbatim>\<open>fix(m,t,seq,ndir,stp_cnt,counter,N,N_dim)\<close>, named \<open>fix_h\<close> here after the
  criterion it implements.
\<close>

definition fix_h ::
  "(int list \<Rightarrow> matrix \<Rightarrow> int list \<Rightarrow> error + matrix)
     \<Rightarrow> matrix \<Rightarrow> int list \<Rightarrow> matrix \<Rightarrow> nat \<Rightarrow> int \<Rightarrow> int \<Rightarrow> nat \<Rightarrow> nat
     \<Rightarrow> bool \<times> matrix \<times> int" where
  "fix_h spline m t seq ndir stp_cnt counter N N_dim =
     fix_verdict (envelope_mean spline m t seq ndir N N_dim) stp_cnt counter N N_dim"

text \<open>
  The verdicts of \<^verbatim>\<open>fix\<close> along successive sifting iterations, the counter threaded
  from one call to the next as \<^verbatim>\<open>memd\<close> does: the last verdict and counter, for the
  envelope results \<open>obs\<close> in order.
\<close>

fun fix_run ::
  "(matrix \<times> int list \<times> int list \<times> real list) list \<Rightarrow> int \<Rightarrow> bool \<times> int \<Rightarrow> nat \<Rightarrow> nat
     \<Rightarrow> bool \<times> int" where
  "fix_run [] stp_cnt sc N N_dim = sc"
| "fix_run (ob # obs) stp_cnt sc N N_dim =
     (case fix_verdict (Inr ob) stp_cnt (snd sc) N N_dim of
        (stp, env, counter) \<Rightarrow> fix_run obs stp_cnt (stp, counter) N N_dim)"

text \<open>
  The number of most recent iterations, counted back from the last one, on which the
  test of line 338 failed, that is on which some direction had zero-crossing and
  extrema counts differing by at most one.
\<close>

definition failing_streak :: "(matrix \<times> int list \<times> int list \<times> real list) list \<Rightarrow> nat" where
  "failing_streak obs =
     length (takeWhile (\<lambda>(env, nem, nzm, amp). \<not> counts_differ nem nzm) (rev obs))"

section \<open>Outer stopping test\<close>

text \<open>One pass of the loop of \<^verbatim>\<open>stop_emd\<close>, on the pair \<open>(ner, dir_vec)\<close>.\<close>

definition stop_emd_step ::
  "matrix \<Rightarrow> matrix \<Rightarrow> nat \<Rightarrow> int list \<times> real list \<Rightarrow> nat \<Rightarrow> error + (int list \<times> real list)" where
  "stop_emd_step r seq N_dim st it =
     bind_e (direction seq (int it) N_dim (snd st)) (\<lambda>d.
     bind_e (dot r d) (\<lambda>y.
     bind_e (local_peaks y) (\<lambda>(indmin, indmax).
       Inr ((fst st)[it := int (length indmin) + int (length indmax)], d))))"

fun stop_emd_loop ::
  "matrix \<Rightarrow> matrix \<Rightarrow> nat \<Rightarrow> int list \<times> real list \<Rightarrow> nat list \<Rightarrow> error + (int list \<times> real list)" where
  "stop_emd_loop r seq N_dim st [] = Inr st"
| "stop_emd_loop r seq N_dim st (it # its) =
     bind_e (stop_emd_step r seq N_dim st it) (\<lambda>st'. stop_emd_loop r seq N_dim st' its)"

text \<open>\<^verbatim>\<open>stop_emd(r,seq,ndir,N_dim)\<close>: true when every direction has fewer than 3 extrema.\<close>

definition stop_emd :: "matrix \<Rightarrow> matrix \<Rightarrow> nat \<Rightarrow> nat \<Rightarrow> error + bool" where
  "stop_emd r seq ndir N_dim =
     bind_e (stop_emd_loop r seq N_dim (replicate ndir 0, replicate N_dim 0) [0..<ndir])
       (\<lambda>st. Inr (list_all (\<lambda>n. n < 3) (fst st)))"

section \<open>Decomposition engine\<close>

text \<open>What the engine reports without failing: a line printed, or a warning issued.\<close>

datatype diag = Printed string | Warned string

text \<open>
  \<^verbatim>\<open>warnings.warn(message, category)\<close> of the Python library: the second positional
  argument is the warning category, and the call raises \<open>TypeError\<close> when it is not a
  warning class.  Both calls of the source pass a string there.
\<close>

datatype pyarg = PyStr string | PyWarningClass string

definition warnings_warn :: "string \<Rightarrow> pyarg \<Rightarrow> error + diag" where
  "warnings_warn message category =
     (case category of PyStr s \<Rightarrow> Inl TypeError | PyWarningClass c \<Rightarrow> Inr (Warned message))"

text \<open>
  Line 513 names \<^verbatim>\<open>warnings.wanr\<close>.  The module has no such attribute, so the
  expression raises \<open>AttributeError\<close> before any argument is looked at.
\<close>

definition warnings_wanr :: "string \<Rightarrow> pyarg \<Rightarrow> error + diag" where
  "warnings_wanr message category = Inl AttributeError"

text \<open>\<^verbatim>\<open>np.max(np.abs(m))\<close>: the largest magnitude; an empty array raises.\<close>

definition max_abs :: "matrix \<Rightarrow> error + real" where
  "max_abs m =
     (case map abs (concat m) of [] \<Rightarrow> Inl ValueError | v # vs \<Rightarrow> Inr (foldl max v vs))"

text \<open>The test of line 492.\<close>

definition too_small :: "matrix \<Rightarrow> matrix \<Rightarrow> error + bool" where
  "too_small m x =
     bind_e (max_abs m) (\<lambda>a. bind_e (max_abs x) (\<lambda>b. Inr (a < (1 / 10 ^ 10) * b)))"

text \<open>
  Lines 493 to 496, before the \<^verbatim>\<open>break\<close>: the diagnostics after the forced stop.
\<close>

definition forced_stop :: "bool \<Rightarrow> diag list \<Rightarrow> error + diag list" where
  "forced_stop stop_sift diags =
     (if \<not> stop_sift
      then bind_e (warnings_warn ''emd:warning'' (PyStr ''forced stop of EMD : too small amplitude''))
             (\<lambda>d. Inr (diags @ [d]))
      else Inr (diags @ [Printed ''forced stop of EMD : too small amplitude'']))"

text \<open>
  The sifting loop of lines 500 to 513.  \<open>criterion m counter\<close> is the stopping
  evaluator selected by \<^verbatim>\<open>stp_crit\<close>, returning \<open>(stop_sift, env_mean, counter)\<close>.
  The loop returns the mode and the iteration counter.
\<close>

function sift ::
  "(matrix \<Rightarrow> int \<Rightarrow> bool \<times> matrix \<times> int) \<Rightarrow> int \<Rightarrow> matrix \<Rightarrow> bool \<Rightarrow> matrix \<Rightarrow> int \<Rightarrow> int
     \<Rightarrow> error + (matrix \<times> int)" where
  "sift criterion MaxIterations m stop_sift env_mean counter nbit =
     (if \<not> stop_sift \<and> nbit < MaxIterations
      then (case criterion (msub m env_mean) counter of
              (stop_sift', env_mean', counter') \<Rightarrow>
                if nbit + 1 = MaxIterations - 1 \<and> nbit + 1 > 100
                then (case warnings_wanr ''emd:warning''
                             (PyStr ''forced stop of sifting : too many erations'') of
                        Inl e \<Rightarrow> Inl e
                      | Inr d \<Rightarrow> sift criterion MaxIterations (msub m env_mean)
                                  stop_sift' env_mean' counter' (nbit + 1))
                else sift criterion MaxIterations (msub m env_mean)
                       stop_sift' env_mean' counter' (nbit + 1))
      else Inr (m, nbit))"
  by pat_completeness auto
termination
  by (relation "measure (\<lambda>(c, MaxIt, m, s, e, k, nbit). nat (MaxIt - nbit))") auto

declare sift.simps [simp del]

text \<open>
  The selection of lines 484 to 488 and 505 to 508: every string other than
  \<^verbatim>\<open>'stop'\<close> takes the \<^verbatim>\<open>fix\<close> branch.  \<^verbatim>\<open>stop\<close> leaves the counter alone.
\<close>

definition criterion ::
  "(int list \<Rightarrow> matrix \<Rightarrow> int list \<Rightarrow> error + matrix)
     \<Rightarrow> string \<Rightarrow> int list \<Rightarrow> real \<Rightarrow> real \<Rightarrow> real \<Rightarrow> matrix \<Rightarrow> nat \<Rightarrow> int \<Rightarrow> nat \<Rightarrow> nat
     \<Rightarrow> matrix \<Rightarrow> int \<Rightarrow> bool \<times> matrix \<times> int" where
  "criterion spline stp_crit t sd sd2 tol seq ndir stp_cnt N N_dim m counter =
     (if stp_crit = ''stop''
      then (case stop spline m t sd sd2 tol seq ndir N N_dim of
              (stop_sift, env_mean) \<Rightarrow> (stop_sift, env_mean, counter))
      else fix_h spline m t seq ndir stp_cnt counter N N_dim)"

text \<open>
  The outer loop of lines 479 to 525 on the state \<open>(r, q, nbit, n_imf)\<close> and the
  diagnostics so far; the result is the diagnostics and the list \<open>q\<close>.  Nothing bounds
  the number of modes when \<open>maxnIMF\<close> is \<open>None\<close>, so the loop is a partial function:
  \<open>None\<close> is a run that never returns.  The first evaluation of a mode starts the
  counter of \<^verbatim>\<open>fix\<close> at \<open>0\<close>.  On the exit of line 520 the residue has not been
  updated.
\<close>

partial_function (option) memd_loop ::
  "matrix \<Rightarrow> nat \<Rightarrow> nat \<Rightarrow> (matrix \<Rightarrow> int \<Rightarrow> bool \<times> matrix \<times> int) \<Rightarrow> int option \<Rightarrow> int
     \<Rightarrow> matrix \<Rightarrow> matrix \<times> matrix list \<times> int \<times> int \<times> diag list
     \<Rightarrow> (error + (diag list \<times> matrix list)) option" where
  "memd_loop seq ndir N_dim crit maxnIMF MaxIterations x st =
     (case st of (r, q, nbit, n_imf, diags) \<Rightarrow>
        (case stop_emd r seq ndir N_dim of
           Inl e \<Rightarrow> Some (Inl e)
         | Inr stp \<Rightarrow>
             if stp then Some (Inr (diags, q @ [transpose r]))
             else
               (case crit r 0 of (stop_sift, env_mean, counter) \<Rightarrow>
                  (case too_small r x of
                     Inl e \<Rightarrow> Some (Inl e)
                   | Inr small \<Rightarrow>
                       if small
                       then (case forced_stop stop_sift diags of
                               Inl e \<Rightarrow> Some (Inl e)
                             | Inr diags' \<Rightarrow> Some (Inr (diags', q @ [transpose r])))
                       else
                         (case sift crit MaxIterations r stop_sift env_mean counter nbit of
                            Inl e \<Rightarrow> Some (Inl e)
                          | Inr (m, nbit') \<Rightarrow>
                              if (case maxnIMF of None \<Rightarrow> False | Some k \<Rightarrow> n_imf + 1 \<ge> k)
                              then Some (Inr (diags, q @ [transpose m] @ [transpose r]))
                              else memd_loop seq ndir N_dim crit maxnIMF MaxIterations x
                                     (msub r m, q @ [transpose m], 0, n_imf + 1, diags))))))"

text \<open>\<^verbatim>\<open>np.shape(x)[1]\<close> of a matrix given by its rows.\<close>

definition ncols :: "matrix \<Rightarrow> nat" where
  "ncols x = (case x of [] \<Rightarrow> 0 | row # rows \<Rightarrow> length row)"

text \<open>
  \<^verbatim>\<open>memd(x, ndir, maxnIMF, stp_crit, sd, sd2, tol, stp_cnt, MaxIterations)\<close>.  \<open>seq\<close>
  stands for \<^verbatim>\<open>chaospy.create_halton_samples(ndir, N_dim).T\<close>, an array of \<open>ndir\<close>
  rows and \<open>N_dim\<close> columns produced outside this repository.
\<close>

definition memd ::
  "(int list \<Rightarrow> matrix \<Rightarrow> int list \<Rightarrow> error + matrix) \<Rightarrow> matrix
     \<Rightarrow> matrix \<Rightarrow> nat \<Rightarrow> int option \<Rightarrow> string \<Rightarrow> real \<Rightarrow> real \<Rightarrow> real \<Rightarrow> int \<Rightarrow> int
     \<Rightarrow> (error + (diag list \<times> matrix list)) option" where
  "memd spline seq x ndir maxnIMF stp_crit sd sd2 tol stp_cnt MaxIterations =
     (let N_dim = ncols x; N = length x; t = map int [1..<N + 1]
      in memd_loop seq ndir N_dim
           (criterion spline stp_crit t sd sd2 tol seq ndir stp_cnt N N_dim)
           maxnIMF MaxIterations x (x, [], 0, 1, []))"

section \<open>Properties\<close>

subsection \<open>Extrema detector\<close>

text \<open>
  C8.  The detector does not test absolute values: the sequence
  \<open>-1, -3, -2, -5, -1\<close>, every sample of which has absolute value at least \<open>1e-5\<close>,
  passes the test \<^verbatim>\<open>all(x < 1e-5)\<close>, is replaced by zeros and is reported without
  extrema, although detection on the original values finds minima at 1 and 3 and a
  maximum at 2.
\<close>

theorem local_peaks_negative_signal_zeroed:
  "degenerate [-1, -3, -2, -5, -1]
   \<and> \<not> list_all (\<lambda>v. \<bar>v\<bar> < 1 / 10 ^ 5) [-1, -3, -2, -5, -1 :: real]
   \<and> local_peaks [-1, -3, -2, -5, -1] = Inr ([], [])
   \<and> extrema [-1, -3, -2, -5, -1] = Inr ([1, 3], [2])"
  by code_simp

subsection \<open>Direction vectors\<close>

lemma clipped_unit:
  fixes tt p :: real
  assumes "- 1 \<le> tt" "tt \<le> 1"
  shows "(sqrt (1 - tt * tt) * cos p)\<^sup>2 + ((sqrt (1 - tt * tt) * sin p)\<^sup>2 + tt\<^sup>2) = 1"
proof -
  have "\<bar>tt\<bar> \<le> 1" using assms by simp
  then have "tt\<^sup>2 \<le> 1" by (simp add: abs_square_le_1)
  then have s: "(sqrt (1 - tt * tt))\<^sup>2 = 1 - tt\<^sup>2" by (simp add: power2_eq_square)
  have "(sqrt (1 - tt * tt) * cos p)\<^sup>2 + (sqrt (1 - tt * tt) * sin p)\<^sup>2
        = (sqrt (1 - tt * tt))\<^sup>2 * (cos p)\<^sup>2 + (sqrt (1 - tt * tt))\<^sup>2 * (sin p)\<^sup>2"
    by (simp only: power_mult_distrib)
  also have "\<dots> = (sqrt (1 - tt * tt))\<^sup>2 * ((cos p)\<^sup>2 + (sin p)\<^sup>2)"
    by (simp only: distrib_left)
  also have "\<dots> = 1 - tt\<^sup>2" using s by simp
  finally show ?thesis by simp
qed

text \<open>
  The closed form for three channels does give unit vectors: the first coordinate is
  clipped to \<open>[-1, 1]\<close> before the square root is taken.
\<close>

lemma dir_vec3_unit:
  "dir_vec3 seq it [a, b, c] = Inr v \<Longrightarrow> sq_norm v = 1"
  unfolding dir_vec3_def Let_def
  by (cases "getitem seq it"; simp; cases "getitem (projr (getitem seq it)) 0"; simp;
      cases "getitem (projr (getitem seq it)) 1"; simp)
     (auto simp add: setitem_def sq_norm_def clipped_unit split: if_splits)

text \<open>
  The general construction on two channels, for any sample point \<open>(s0, s1)\<close>: the first
  coordinate is the constant \<open>1\<close> written by line 239, the second a cosine.
\<close>

lemma make_dir_vectors_2d:
  "make_dir_vectors [[s0, s1]] 0 2 [a, b]
     = Inr [1, cos (arctan2 (sqrt ((2 * s1 - 1) ^ 2)) (2 * s0 - 1))]"
  by (simp add: make_dir_vectors_def getitem_def setitem_def slice_to_def clip_bound_def
      Let_def numeral_2_eq_2)

text \<open>
  C3.  The general hyperspherical construction does not produce unit vectors: for two
  channels and the sample point \<open>(3/4, 1/2)\<close> the direction is \<open>(1, 1)\<close>, whose squared
  components sum to \<open>2\<close>.
\<close>

theorem make_dir_vectors_not_unit:
  "make_dir_vectors [[3/4, 1/2]] 0 2 [0, 0] = Inr [1, 1]
   \<and> direction [[3/4, 1/2]] 0 2 [0, 0] = Inr [1, 1]
   \<and> sq_norm [1, 1] = 2"
  by (simp add: direction_def make_dir_vectors_def getitem_def setitem_def slice_to_def
      clip_bound_def arctan2_def Let_def numeral_2_eq_2 sq_norm_def)

subsection \<open>Fixed-count policy\<close>

lemma fix_run_snoc:
  "fix_run (obs @ [ob]) k sc N N_dim =
     (case fix_verdict (Inr ob) k (snd (fix_run obs k sc N N_dim)) N N_dim of
        (stp, env, counter) \<Rightarrow> (stp, counter))"
  by (induction obs arbitrary: sc) (auto split: prod.splits)

lemma fix_run_counter:
  "snd (fix_run obs k (s0, 0) N N_dim) = int (failing_streak obs)"
proof (induction obs rule: rev_induct)
  case Nil
  show ?case by (simp add: failing_streak_def)
next
  case (snoc ob obs)
  obtain env nem nzm amp where ob: "ob = (env, nem, nzm, amp)" by (cases ob) auto
  show ?case using snoc
    by (simp add: fix_run_snoc fix_verdict_def failing_streak_def ob)
qed

text \<open>
  C2, as the code has it.  When \<^verbatim>\<open>envelope_mean\<close> returns on every iteration and
  \<open>stp_cnt\<close> is positive, the verdict of \<^verbatim>\<open>fix\<close> after a sequence of sifting
  iterations is to halt exactly when the test \<^verbatim>\<open>all(np.abs(nzm-nem)>1)\<close> has failed on
  each of the last \<open>stp_cnt\<close> iterations; the counter is the length of that run of
  failures, so an iteration on which every direction differs by more than one resets
  it to zero and does not halt.
\<close>

theorem fix_halts_after_failing_streak:
  assumes "obs \<noteq> []" "0 < stp_cnt"
  shows "fix_run obs stp_cnt (s0, 0) N N_dim
           = (stp_cnt \<le> int (failing_streak obs), int (failing_streak obs))"
proof -
  obtain obs' ob where o: "obs = obs' @ [ob]"
    using assms(1) by (cases obs rule: rev_cases) auto
  obtain env nem nzm amp where ob: "ob = (env, nem, nzm, amp)" by (cases ob) auto
  have c: "snd (fix_run obs' stp_cnt (s0, 0) N N_dim) = int (failing_streak obs')"
    by (rule fix_run_counter)
  show ?thesis using assms(2) c unfolding o
    by (auto simp add: fix_run_snoc fix_verdict_def failing_streak_def ob)
qed

theorem fix_halts_after_failing_streak_witness:
  "[([[0]], [4], [4], [0]), ([[0]], [4], [4], [0])] \<noteq> [] \<and> (0::int) < 2 \<and>
   fix_run [([[0]], [4], [4], [0]), ([[0]], [4], [4], [0])] 2 (False, 0) 1 1 = (True, 2)"
  using fix_halts_after_failing_streak
          [of "[([[0]], [4], [4], [0]), ([[0]], [4], [4], [0])]" 2 False 1 1]
  by (simp add: failing_streak_def counts_differ_def)

text \<open>
  C2, as stated, fails both ways.  With one direction, 5 extrema and 1 zero crossing on
  two iterations in a row, the counts differ by more than one in every direction on
  both, yet the verdict is to go on, with the counter at zero.  With 4 extrema and 4
  zero crossings on two iterations in a row the stated condition never holds, yet the
  verdict is to halt.
\<close>

theorem fix_halts_on_differing_counts_counterexample:
  "counts_differ [5] [1]
   \<and> fix_run [([[0]], [5], [1], [0]), ([[0]], [5], [1], [0])] 2 (False, 0) 1 1 = (False, 0)
   \<and> \<not> counts_differ [4] [4]
   \<and> fix_run [([[0]], [4], [4], [0]), ([[0]], [4], [4], [0])] 2 (False, 0) 1 1 = (True, 2)"
  by (simp add: counts_differ_def fix_verdict_def)

subsection \<open>Runs on one channel\<close>

lemma make_dir_vectors_1d: "make_dir_vectors [[s]] 0 (Suc 0) [a] = Inr [1]"
  by (simp add: make_dir_vectors_def getitem_def setitem_def slice_to_def clip_bound_def
      Let_def)

lemma sift_stopped: "sift crit MaxIt m True e c nbit = Inr (m, nbit)"
  by (subst sift.simps) simp

lemma sift_no_budget: "MaxIt \<le> nbit \<Longrightarrow> sift crit MaxIt m s e c nbit = Inr (m, nbit)"
  by (subst sift.simps) simp

lemma underflow_small: "0 < underflow \<and> underflow < 1 / 10 ^ 6"
  by (simp add: underflow_def)

lemma product_negative_eval:
  "1 / 10 ^ 6 \<le> \<bar>a * b\<bar> \<or> 0 \<le> a * b \<Longrightarrow> product_negative a b = (a * b < 0)"
  using underflow_small by (auto simp add: product_negative_def)

text \<open>
  With one channel and one direction the direction vector is \<open>(1)\<close>, and
  \<^verbatim>\<open>envelope_mean\<close> is the two spline calls on the extended extrema of the column,
  followed by the average over the single direction.
\<close>

lemma envelope_mean_1d:
  assumes "dot m [1] = Inr y" "local_peaks y = Inr (imin, imax)" "zero_crossings y = Inr zc"
    and "boundary_conditions imin imax t y m 2 = Inr (Some (tmin, tmax, zmin, zmax))"
  shows "envelope_mean spline m t [[s]] (Suc 0) N (Suc 0) =
     bind_e (spline tmin zmin t) (\<lambda>env_min.
     bind_e (spline tmax zmax t) (\<lambda>env_max.
       if has_shape (length t) (Suc 0) env_min \<and> has_shape (length t) (Suc 0) env_max
       then Inr (mscale 1 (madd (zeros (length t) (Suc 0))
                             (map (map (\<lambda>v. v / 2)) (madd env_max env_min))),
                 [int (length imin) + int (length imax)], [int (length zc)],
                 map (\<lambda>v. v / 1)
                   (map2 (+) (replicate (length t) 0)
                      (map (\<lambda>row. sqrt (sum_list (map (\<lambda>v. v ^ 2) row)) / 2)
                         (msub env_max env_min))))
       else Inl ValueError))"
proof (cases "spline tmin zmin t")
  case (Inl e)
  then show ?thesis
    by (simp add: envelope_mean_def envelope_step_def direction_def make_dir_vectors_1d assms)
next
  case a: (Inr env_min)
  show ?thesis
  proof (cases "spline tmax zmax t")
    case (Inl e)
    then show ?thesis
      by (simp add: envelope_mean_def envelope_step_def direction_def make_dir_vectors_1d
          assms a)
  next
    case b: (Inr env_max)
    show ?thesis
      by (simp add: envelope_mean_def envelope_step_def direction_def make_dir_vectors_1d
          assms a b envelope_finish_def Let_def)
  qed
qed

text \<open>The verdict of \<^verbatim>\<open>fix\<close> in the same setting, when both spline calls return.\<close>

lemma fix_h_1d:
  assumes "dot m [1] = Inr y" "local_peaks y = Inr (imin, imax)" "zero_crossings y = Inr zc"
    and "boundary_conditions imin imax t y m 2 = Inr (Some (tmin, tmax, zmin, zmax))"
    and "spline tmin zmin t = Inr env_min" "spline tmax zmax t = Inr env_max"
    and "has_shape (length t) (Suc 0) env_min" "has_shape (length t) (Suc 0) env_max"
  shows "fix_h spline m t [[s]] (Suc 0) stp_cnt counter N (Suc 0) =
     (if counts_differ [int (length imin) + int (length imax)] [int (length zc)]
      then (False, mscale 1 (madd (zeros (length t) (Suc 0))
                               (map (map (\<lambda>v. v / 2)) (madd env_max env_min))), 0)
      else (stp_cnt \<le> counter + 1,
            mscale 1 (madd (zeros (length t) (Suc 0))
                        (map (map (\<lambda>v. v / 2)) (madd env_max env_min))), counter + 1))"
  by (simp add: fix_h_def fix_verdict_def envelope_mean_1d[OF assms(1-4)] assms(5-8))

text \<open>
  Whatever the spline calls do, \<^verbatim>\<open>fix\<close> agrees to stop once the counter reaches
  \<open>stp_cnt\<close> on a column whose extrema and zero-crossing counts differ by at most one.
\<close>

lemma fix_h_1d_agrees:
  assumes "dot m [1] = Inr y" "local_peaks y = Inr (imin, imax)" "zero_crossings y = Inr zc"
    and "boundary_conditions imin imax t y m 2 = Inr (Some (tmin, tmax, zmin, zmax))"
    and "\<not> counts_differ [int (length imin) + int (length imax)] [int (length zc)]"
    and "stp_cnt \<le> counter + 1"
  shows "fst (fix_h spline m t [[s]] (Suc 0) stp_cnt counter N (Suc 0))"
  using assms(5,6)
  by (cases "spline tmin zmin t"; cases "spline tmax zmax t")
     (simp_all add: fix_h_def fix_verdict_def envelope_mean_1d[OF assms(1-4)])

subsection \<open>The signal 0, 1, 0, 1, 0\<close>

lemma time_axis_5: "map int [1..<5 + 1] = [1, 2, 3, 4, 5]"
  by code_simp

lemma zigzag_envelopes:
  "dot [[0], [1], [0], [1], [0]] [1] = Inr [0, 1, 0, 1, 0]"
  "local_peaks [0, 1, 0, 1, 0] = Inr ([2], [1, 3])"
  "zero_crossings [0, 1, 0, 1, 0] = Inr [0, 2, 4]"
  "boundary_conditions [2] [1, 3] [1, 2, 3, 4, 5] [0, 1, 0, 1, 0] [[0], [1], [0], [1], [0 :: real]] 2
     = Inr (Some ([- 1, 1, 3, 5, 7], [- 2, 0, 2, 4, 6, 8],
                  [[0], [0], [0], [0], [0]], [[1], [1], [1], [1], [1], [1]]))"
proof -
  show "dot [[0], [1], [0], [1], [0]] [1] = Inr [0, 1, 0, 1, 0]" by (simp add: dot_def)
  show "local_peaks [0, 1, 0, 1, 0] = Inr ([2], [1, 3])" by code_simp
  show "zero_crossings [0, 1, 0, 1, 0] = Inr [0, 2, 4]"
    by (simp add: zero_crossings_def where_idx_def product_negative_eval Let_def upt_conv_Cons)
  show "boundary_conditions [2] [1, 3] [1, 2, 3, 4, 5] [0, 1, 0, 1, 0]
          [[0], [1], [0], [1], [0 :: real]] 2
     = Inr (Some ([- 1, 1, 3, 5, 7], [- 2, 0, 2, 4, 6, 8],
                  [[0], [0], [0], [0], [0]], [[1], [1], [1], [1], [1], [1]]))"
    by code_simp
qed

lemma centred_zigzag_envelopes:
  "dot [[- (1 / 2)], [1 / 2], [- (1 / 2)], [1 / 2], [- (1 / 2)]] [1]
     = Inr [- (1 / 2), 1 / 2, - (1 / 2), 1 / 2, - (1 / 2)]"
  "local_peaks [- (1 / 2), 1 / 2, - (1 / 2), 1 / 2, - (1 / 2)] = Inr ([2], [1, 3])"
  "zero_crossings [- (1 / 2), 1 / 2, - (1 / 2), 1 / 2, - (1 / 2)] = Inr [0, 1, 2, 3]"
  "boundary_conditions [2] [1, 3] [1, 2, 3, 4, 5] [- (1 / 2), 1 / 2, - (1 / 2), 1 / 2, - (1 / 2)]
       [[- (1 / 2)], [1 / 2], [- (1 / 2)], [1 / 2], [- (1 / 2) :: real]] 2
     = Inr (Some ([- 1, 1, 3, 5, 7], [- 2, 0, 2, 4, 6, 8],
                  [[- (1 / 2)], [- (1 / 2)], [- (1 / 2)], [- (1 / 2)], [- (1 / 2)]],
                  [[1 / 2], [1 / 2], [1 / 2], [1 / 2], [1 / 2], [1 / 2]]))"
proof -
  show "dot [[- (1 / 2)], [1 / 2], [- (1 / 2)], [1 / 2], [- (1 / 2)]] [1]
     = Inr [- (1 / 2), 1 / 2, - (1 / 2), 1 / 2, - (1 / 2)]" by (simp add: dot_def)
  show "local_peaks [- (1 / 2), 1 / 2, - (1 / 2), 1 / 2, - (1 / 2)] = Inr ([2], [1, 3])"
    by code_simp
  show "zero_crossings [- (1 / 2), 1 / 2, - (1 / 2), 1 / 2, - (1 / 2)] = Inr [0, 1, 2, 3]"
    by (simp add: zero_crossings_def where_idx_def product_negative_eval Let_def upt_conv_Cons)
  show "boundary_conditions [2] [1, 3] [1, 2, 3, 4, 5]
       [- (1 / 2), 1 / 2, - (1 / 2), 1 / 2, - (1 / 2)]
       [[- (1 / 2)], [1 / 2], [- (1 / 2)], [1 / 2], [- (1 / 2) :: real]] 2
     = Inr (Some ([- 1, 1, 3, 5, 7], [- 2, 0, 2, 4, 6, 8],
                  [[- (1 / 2)], [- (1 / 2)], [- (1 / 2)], [- (1 / 2)], [- (1 / 2)]],
                  [[1 / 2], [1 / 2], [1 / 2], [1 / 2], [1 / 2], [1 / 2]]))"
    by code_simp
qed

text \<open>
  A spline through constant data is that constant.  The decomposition of
  \<open>0, 1, 0, 1, 0\<close> makes four spline calls, all of them on constant data: on the
  extended minima and maxima of the signal, and on those of the signal less one half.
\<close>

lemma fix_h_zigzag:
  assumes "spline [- 1, 1, 3, 5, 7] [[0], [0], [0], [0], [0]] [1, 2, 3, 4, 5]
             = Inr [[0], [0], [0], [0], [0]]"
    and "spline [- 2, 0, 2, 4, 6, 8] [[1], [1], [1], [1], [1], [1]] [1, 2, 3, 4, 5]
             = Inr [[1], [1], [1], [1], [1]]"
  shows "fix_h spline [[0], [1], [0], [1], [0]] [1, 2, 3, 4, 5] [[s]] (Suc 0) stp_cnt counter
           N (Suc 0)
         = (stp_cnt \<le> counter + 1, [[1 / 2], [1 / 2], [1 / 2], [1 / 2], [1 / 2]], counter + 1)"
  by (subst fix_h_1d[where spline = spline, OF zigzag_envelopes assms])
     (auto simp add: has_shape_def counts_differ_def mscale_def madd_def zeros_def)

lemma fix_h_centred_zigzag:
  assumes "spline [- 1, 1, 3, 5, 7]
             [[- (1 / 2)], [- (1 / 2)], [- (1 / 2)], [- (1 / 2)], [- (1 / 2)]] [1, 2, 3, 4, 5]
             = Inr [[- (1 / 2)], [- (1 / 2)], [- (1 / 2)], [- (1 / 2)], [- (1 / 2)]]"
    and "spline [- 2, 0, 2, 4, 6, 8]
             [[1 / 2], [1 / 2], [1 / 2], [1 / 2], [1 / 2], [1 / 2]] [1, 2, 3, 4, 5]
             = Inr [[1 / 2], [1 / 2], [1 / 2], [1 / 2], [1 / 2]]"
  shows "fix_h spline [[- (1 / 2)], [1 / 2], [- (1 / 2)], [1 / 2], [- (1 / 2)]] [1, 2, 3, 4, 5]
           [[s]] (Suc 0) stp_cnt counter N (Suc 0)
         = (stp_cnt \<le> counter + 1, [[0], [0], [0], [0], [0]], counter + 1)"
  by (subst fix_h_1d[where spline = spline, OF centred_zigzag_envelopes assms])
     (auto simp add: has_shape_def counts_differ_def mscale_def madd_def zeros_def)

subsection \<open>Decomposition engine: forced stop on a small residue\<close>

text \<open>
  A signal of nine samples on one channel: maxima of height \<open>10^12\<close> between minima
  that ripple by 56 around \<open>-10^12 + 84\<close>.  Its extrema, its zero crossings and the
  extended extrema that \<^verbatim>\<open>envelope_mean\<close> hands to the spline, on the time axis
  \<open>1, ..., 9\<close> of \<^verbatim>\<open>memd\<close>.
\<close>

lemma time_axis_9: "map int [1..<9 + 1] = [1, 2, 3, 4, 5, 6, 7, 8, 9]"
  by code_simp

lemma ripple_envelopes:
  "dot [[- 999999999944], [1000000000000], [- 999999999888], [1000000000000],
        [- 999999999944], [1000000000000], [- 999999999888], [1000000000000],
        [- 999999999944]] [1]
     = Inr [- 999999999944, 1000000000000, - 999999999888, 1000000000000, - 999999999944,
            1000000000000, - 999999999888, 1000000000000, - 999999999944]"
  "local_peaks [- 999999999944, 1000000000000, - 999999999888, 1000000000000, - 999999999944,
                1000000000000, - 999999999888, 1000000000000, - 999999999944]
     = Inr ([2, 4, 6], [1, 3, 5, 7])"
  "zero_crossings [- 999999999944, 1000000000000, - 999999999888, 1000000000000,
                   - 999999999944, 1000000000000, - 999999999888, 1000000000000,
                   - 999999999944]
     = Inr [0, 1, 2, 3, 4, 5, 6, 7]"
  "boundary_conditions [2, 4, 6] [1, 3, 5, 7] [1, 2, 3, 4, 5, 6, 7, 8, 9]
     [- 999999999944, 1000000000000, - 999999999888, 1000000000000, - 999999999944,
      1000000000000, - 999999999888, 1000000000000, - 999999999944]
     [[- 999999999944], [1000000000000], [- 999999999888], [1000000000000],
      [- 999999999944], [1000000000000], [- 999999999888], [1000000000000],
      [- 999999999944 :: real]] 2
     = Inr (Some ([- 1, 1, 3, 5, 7, 9, 11], [- 2, 0, 2, 4, 6, 8, 10, 12],
                  [[- 999999999888], [- 999999999944], [- 999999999888], [- 999999999944],
                   [- 999999999888], [- 999999999944], [- 999999999888]],
                  [[1000000000000], [1000000000000], [1000000000000], [1000000000000],
                   [1000000000000], [1000000000000], [1000000000000], [1000000000000]]))"
proof -
  show "dot [[- 999999999944], [1000000000000], [- 999999999888], [1000000000000],
        [- 999999999944], [1000000000000], [- 999999999888], [1000000000000],
        [- 999999999944]] [1]
     = Inr [- 999999999944, 1000000000000, - 999999999888, 1000000000000, - 999999999944,
            1000000000000, - 999999999888, 1000000000000, - 999999999944]"
    by (simp add: dot_def)
  show "local_peaks [- 999999999944, 1000000000000, - 999999999888, 1000000000000,
                - 999999999944, 1000000000000, - 999999999888, 1000000000000, - 999999999944]
     = Inr ([2, 4, 6], [1, 3, 5, 7])"
    by code_simp
  show "zero_crossings [- 999999999944, 1000000000000, - 999999999888, 1000000000000,
                   - 999999999944, 1000000000000, - 999999999888, 1000000000000,
                   - 999999999944]
     = Inr [0, 1, 2, 3, 4, 5, 6, 7]"
    by (simp add: zero_crossings_def where_idx_def product_negative_eval Let_def upt_conv_Cons)
  show "boundary_conditions [2, 4, 6] [1, 3, 5, 7] [1, 2, 3, 4, 5, 6, 7, 8, 9]
     [- 999999999944, 1000000000000, - 999999999888, 1000000000000, - 999999999944,
      1000000000000, - 999999999888, 1000000000000, - 999999999944]
     [[- 999999999944], [1000000000000], [- 999999999888], [1000000000000],
      [- 999999999944], [1000000000000], [- 999999999888], [1000000000000],
      [- 999999999944 :: real]] 2
     = Inr (Some ([- 1, 1, 3, 5, 7, 9, 11], [- 2, 0, 2, 4, 6, 8, 10, 12],
                  [[- 999999999888], [- 999999999944], [- 999999999888], [- 999999999944],
                   [- 999999999888], [- 999999999944], [- 999999999888]],
                  [[1000000000000], [1000000000000], [1000000000000], [1000000000000],
                   [1000000000000], [1000000000000], [1000000000000], [1000000000000]]))"
    by code_simp
qed

text \<open>The signal after one sifting step, less the mean envelope \<open>28, 47, 56, 41, ...\<close>.\<close>

lemma sifted_ripple_envelopes:
  "dot [[- 999999999972], [999999999953], [- 999999999944], [999999999959],
        [- 999999999972], [999999999959], [- 999999999944], [999999999953],
        [- 999999999972]] [1]
     = Inr [- 999999999972, 999999999953, - 999999999944, 999999999959, - 999999999972,
            999999999959, - 999999999944, 999999999953, - 999999999972]"
  "local_peaks [- 999999999972, 999999999953, - 999999999944, 999999999959, - 999999999972,
                999999999959, - 999999999944, 999999999953, - 999999999972]
     = Inr ([2, 4, 6], [1, 3, 5, 7])"
  "zero_crossings [- 999999999972, 999999999953, - 999999999944, 999999999959,
                   - 999999999972, 999999999959, - 999999999944, 999999999953,
                   - 999999999972]
     = Inr [0, 1, 2, 3, 4, 5, 6, 7]"
  "boundary_conditions [2, 4, 6] [1, 3, 5, 7] [1, 2, 3, 4, 5, 6, 7, 8, 9]
     [- 999999999972, 999999999953, - 999999999944, 999999999959, - 999999999972,
      999999999959, - 999999999944, 999999999953, - 999999999972]
     [[- 999999999972], [999999999953], [- 999999999944], [999999999959],
      [- 999999999972], [999999999959], [- 999999999944], [999999999953],
      [- 999999999972 :: real]] 2
     = Inr (Some ([- 1, 1, 3, 5, 7, 9, 11], [- 2, 0, 2, 4, 6, 8, 10, 12],
                  [[- 999999999944], [- 999999999972], [- 999999999944], [- 999999999972],
                   [- 999999999944], [- 999999999972], [- 999999999944]],
                  [[999999999959], [999999999953], [999999999953], [999999999959],
                   [999999999959], [999999999953], [999999999953], [999999999959]]))"
proof -
  show "dot [[- 999999999972], [999999999953], [- 999999999944], [999999999959],
        [- 999999999972], [999999999959], [- 999999999944], [999999999953],
        [- 999999999972]] [1]
     = Inr [- 999999999972, 999999999953, - 999999999944, 999999999959, - 999999999972,
            999999999959, - 999999999944, 999999999953, - 999999999972]"
    by (simp add: dot_def)
  show "local_peaks [- 999999999972, 999999999953, - 999999999944, 999999999959,
                - 999999999972, 999999999959, - 999999999944, 999999999953, - 999999999972]
     = Inr ([2, 4, 6], [1, 3, 5, 7])"
    by code_simp
  show "zero_crossings [- 999999999972, 999999999953, - 999999999944, 999999999959,
                   - 999999999972, 999999999959, - 999999999944, 999999999953,
                   - 999999999972]
     = Inr [0, 1, 2, 3, 4, 5, 6, 7]"
    by (simp add: zero_crossings_def where_idx_def product_negative_eval Let_def upt_conv_Cons)
  show "boundary_conditions [2, 4, 6] [1, 3, 5, 7] [1, 2, 3, 4, 5, 6, 7, 8, 9]
     [- 999999999972, 999999999953, - 999999999944, 999999999959, - 999999999972,
      999999999959, - 999999999944, 999999999953, - 999999999972]
     [[- 999999999972], [999999999953], [- 999999999944], [999999999959],
      [- 999999999972], [999999999959], [- 999999999944], [999999999953],
      [- 999999999972 :: real]] 2
     = Inr (Some ([- 1, 1, 3, 5, 7, 9, 11], [- 2, 0, 2, 4, 6, 8, 10, 12],
                  [[- 999999999944], [- 999999999972], [- 999999999944], [- 999999999972],
                   [- 999999999944], [- 999999999972], [- 999999999944]],
                  [[999999999959], [999999999953], [999999999953], [999999999959],
                   [999999999959], [999999999953], [999999999953], [999999999959]]))"
    by code_simp
qed

text \<open>The residue left by the first mode: the mean envelope itself, of peak 56.\<close>

lemma residue_envelopes:
  "dot [[28], [47], [56], [41], [28], [41], [56], [47], [28]] [1]
     = Inr [28, 47, 56, 41, 28, 41, 56, 47, 28]"
  "local_peaks [28, 47, 56, 41, 28, 41, 56, 47, 28] = Inr ([4], [2, 6])"
  "zero_crossings [28, 47, 56, 41, 28, 41, 56, 47, 28] = Inr []"
  "boundary_conditions [4] [2, 6] [1, 2, 3, 4, 5, 6, 7, 8, 9]
     [28, 47, 56, 41, 28, 41, 56, 47, 28]
     [[28], [47], [56], [41], [28], [41], [56], [47], [28 :: real]] 2
     = Inr (Some ([- 3, 1, 5, 9, 13], [- 5, - 1, 3, 7, 11, 15],
                  [[28], [28], [28], [28], [28]], [[56], [56], [56], [56], [56], [56]]))"
proof -
  show "dot [[28], [47], [56], [41], [28], [41], [56], [47], [28]] [1]
     = Inr [28, 47, 56, 41, 28, 41, 56, 47, 28]"
    by (simp add: dot_def)
  show "local_peaks [28, 47, 56, 41, 28, 41, 56, 47, 28] = Inr ([4], [2, 6])"
    by code_simp
  show "zero_crossings [28, 47, 56, 41, 28, 41, 56, 47, 28] = Inr []"
    by (simp add: zero_crossings_def where_idx_def product_negative_eval Let_def upt_conv_Cons)
  show "boundary_conditions [4] [2, 6] [1, 2, 3, 4, 5, 6, 7, 8, 9]
     [28, 47, 56, 41, 28, 41, 56, 47, 28]
     [[28], [47], [56], [41], [28], [41], [56], [47], [28 :: real]] 2
     = Inr (Some ([- 3, 1, 5, 9, 13], [- 5, - 1, 3, 7, 11, 15],
                  [[28], [28], [28], [28], [28]], [[56], [56], [56], [56], [56], [56]]))"
    by code_simp
qed

text \<open>
  C4.  \<^verbatim>\<open>memd\<close> on that signal with one direction, the criterion \<^verbatim>\<open>'fix_h'\<close> and the
  defaults \<open>stp_cnt = 2\<close>, \<open>MaxIterations = 1000\<close>.  The first mode is extracted after
  one sifting step.  The residue is the mean envelope \<open>28, 47, 56, 41, 28, ...\<close>: it has
  three extrema, so the outer loop goes on; it has no zero crossing, so \<^verbatim>\<open>fix\<close> does
  not agree to stop; and its peak 56 is below \<open>10^-10\<close> times the peak \<open>10^12\<close> of the
  input.  The forced stop then calls \<^verbatim>\<open>warnings.warn\<close> with a string as category, and
  the run ends in \<open>TypeError\<close>: no diagnostic is emitted and nothing is returned.

  The hypotheses are the spline calls of the run whose values matter: the lower and
  upper envelope of the signal, the first with the values of the not-a-knot cubic
  spline through the seven knots, and the two envelopes of the residue, through constant
  data.
\<close>

theorem memd_forced_stop_raises:
  assumes "spline [- 1, 1, 3, 5, 7, 9, 11]
             [[- 999999999888], [- 999999999944], [- 999999999888], [- 999999999944],
              [- 999999999888], [- 999999999944], [- 999999999888]]
             [1, 2, 3, 4, 5, 6, 7, 8, 9]
           = Inr [[- 999999999944], [- 999999999906], [- 999999999888], [- 999999999918],
                  [- 999999999944], [- 999999999918], [- 999999999888], [- 999999999906],
                  [- 999999999944]]"
    and "spline [- 2, 0, 2, 4, 6, 8, 10, 12]
             [[1000000000000], [1000000000000], [1000000000000], [1000000000000],
              [1000000000000], [1000000000000], [1000000000000], [1000000000000]]
             [1, 2, 3, 4, 5, 6, 7, 8, 9]
           = Inr [[1000000000000], [1000000000000], [1000000000000], [1000000000000],
                  [1000000000000], [1000000000000], [1000000000000], [1000000000000],
                  [1000000000000]]"
    and "spline [- 3, 1, 5, 9, 13] [[28], [28], [28], [28], [28]] [1, 2, 3, 4, 5, 6, 7, 8, 9]
           = Inr [[28], [28], [28], [28], [28], [28], [28], [28], [28]]"
    and "spline [- 5, - 1, 3, 7, 11, 15] [[56], [56], [56], [56], [56], [56]]
             [1, 2, 3, 4, 5, 6, 7, 8, 9]
           = Inr [[56], [56], [56], [56], [56], [56], [56], [56], [56]]"
  shows "memd spline [[s]]
           [[- 999999999944], [1000000000000], [- 999999999888], [1000000000000],
            [- 999999999944], [1000000000000], [- 999999999888], [1000000000000],
            [- 999999999944]]
           1 None ''fix_h'' sd sd2 tol 2 1000
         = Some (Inl TypeError)"
proof -
  let ?x = "[[- 999999999944], [1000000000000], [- 999999999888], [1000000000000],
             [- 999999999944], [1000000000000], [- 999999999888], [1000000000000],
             [- 999999999944 :: real]]"
  let ?m = "[[- 999999999972], [999999999953], [- 999999999944], [999999999959],
             [- 999999999972], [999999999959], [- 999999999944], [999999999953],
             [- 999999999972 :: real]]"
  let ?r = "[[28], [47], [56], [41], [28], [41], [56], [47], [28 :: real]]"
  let ?t = "[1, 2, 3, 4, 5, 6, 7, 8, 9 :: int]"
  let ?crit = "\<lambda>N. criterion spline ''fix_h'' ?t sd sd2 tol [[s]] (Suc 0) 2 N (Suc 0)"
  have c0: "?crit N ?x 0 = (False, ?r, 1)" for N
    unfolding criterion_def
    by (subst fix_h_1d[where spline = spline, OF ripple_envelopes assms(1,2)])
       (auto simp add: has_shape_def counts_differ_def mscale_def madd_def zeros_def)
  have "fst (?crit N ?m 1)" for N
    unfolding criterion_def
    using fix_h_1d_agrees[where spline = spline and stp_cnt = 2 and counter = 1,
                          OF sifted_ripple_envelopes]
    by (simp add: counts_differ_def)
  then have c1: "\<exists>e c. ?crit N ?m 1 = (True, e, c)" for N
    by (cases "?crit N ?m 1") (use \<open>fst (?crit N ?m 1)\<close> in auto)
  have sf: "sift (?crit N) 1000 ?x False ?r 1 0 = Inr (?m, 1)" for N
  proof -
    obtain e c where ec: "?crit N ?m 1 = (True, e, c)" using c1 by blast
    show ?thesis
      by (subst sift.simps) (simp add: msub_def ec sift_stopped)
  qed
  have lp: "local_peaks [- 999999999944, 1000000000000, - 999999999888, 1000000000000,
              - 999999999944, 1000000000000, - 999999999888, 1000000000000, - 999999999944]
            = Inr ([2, 4, 6], [1, 3, 5, 7])"
    by (rule ripple_envelopes(2))
  have se0: "stop_emd ?x [[s]] (Suc 0) (Suc 0) = Inr False"
    by (simp add: stop_emd_def stop_emd_step_def direction_def make_dir_vectors_1d dot_def lp)
  have ts0: "too_small ?x ?x = Inr False"
    by (simp add: too_small_def max_abs_def)
  have se1: "stop_emd ?r [[s]] (Suc 0) (Suc 0) = Inr False"
    by (simp add: stop_emd_def stop_emd_step_def direction_def make_dir_vectors_1d dot_def
        residue_envelopes(2))
  have c2: "?crit N ?r 0 = (False, [[42], [42], [42], [42], [42], [42], [42], [42], [42]], 0)"
    for N
    unfolding criterion_def
    by (subst fix_h_1d[where spline = spline, OF residue_envelopes assms(3,4)])
       (auto simp add: has_shape_def counts_differ_def mscale_def madd_def zeros_def)
  have ts1: "too_small ?r ?x = Inr True"
    by (simp add: too_small_def max_abs_def)
  have second: "memd_loop [[s]] (Suc 0) (Suc 0) (?crit N) None 1000 ?x (?r, q, 0, 2, [])
                  = Some (Inl TypeError)" for N q
    by (subst memd_loop.simps)
       (simp add: se1 c2 ts1 forced_stop_def warnings_warn_def)
  show ?thesis
    unfolding memd_def Let_def
    by (subst memd_loop.simps)
       (simp add: ncols_def time_axis_9 se0 c0 ts0 sf msub_def second)
qed

theorem memd_forced_stop_raises_witness:
  "memd (\<lambda>tk zk t.
           if tk = [- 1, 1, 3, 5, 7, 9, 11]
              \<and> zk = [[- 999999999888], [- 999999999944], [- 999999999888], [- 999999999944],
                      [- 999999999888], [- 999999999944], [- 999999999888]]
           then Inr [[- 999999999944], [- 999999999906], [- 999999999888], [- 999999999918],
                     [- 999999999944], [- 999999999918], [- 999999999888], [- 999999999906],
                     [- 999999999944]]
           else Inr (replicate (length t) (hd zk)))
      [[3 / 4]]
      [[- 999999999944], [1000000000000], [- 999999999888], [1000000000000],
       [- 999999999944], [1000000000000], [- 999999999888], [1000000000000],
       [- 999999999944]]
      1 None ''fix_h'' (3 / 40) (3 / 4) (3 / 40) 2 1000
   = Some (Inl TypeError)"
  by (rule memd_forced_stop_raises) simp_all

subsection \<open>Decomposition engine: the iteration cap\<close>

text \<open>
  When the evaluator keeps returning the same zero envelope for a mode and cannot agree
  before its counter reaches \<open>stp_cnt\<close>, sifting does not reach a cap of 102 or more:
  the iteration that brings the counter to \<open>MaxIterations - 1\<close> raises.
\<close>

lemma sift_constant_mode_raises:
  assumes "\<And>c. crit m c = (stp_cnt \<le> c + 1, Z, c + 1)" "msub m Z = m" "102 \<le> MaxIt"
  shows "0 \<le> nbit \<Longrightarrow> nbit \<le> MaxIt - 2 \<Longrightarrow> c + (MaxIt - nbit) \<le> stp_cnt
           \<Longrightarrow> sift crit MaxIt m False Z c nbit = Inl AttributeError"
proof (induction "nat (MaxIt - 2 - nbit)" arbitrary: nbit c)
  case 0
  then have nb: "nbit = MaxIt - 2" by simp
  show ?case using assms(3) nb 0(4)
    by (subst sift.simps) (simp add: assms(1,2) warnings_wanr_def)
next
  case (Suc k)
  have k: "k = nat (MaxIt - 2 - (nbit + 1))" using Suc(2) by simp
  have "sift crit MaxIt m False Z (c + 1) (nbit + 1) = Inl AttributeError"
    by (rule Suc(1)[OF k]) (use Suc(2-5) in auto)
  then show ?case using Suc(2-5) assms(3)
    by (subst sift.simps) (simp add: assms(1,2) warnings_wanr_def)
qed

lemma stop_emd_zigzag_seq:
  "stop_emd [[0], [1], [0], [1], [0]] [[s]] (Suc 0) (Suc 0) = Inr False"
proof -
  have lp: "local_peaks [0, 1, 0, 1, 0] = Inr ([2], [1, 3])"
    by code_simp
  show ?thesis
    by (simp add: stop_emd_def stop_emd_step_def direction_def make_dir_vectors_1d dot_def lp)
qed

text \<open>
  C5.  The signal \<open>0, 1, 0, 1, 0\<close> on one channel, one direction, the criterion
  \<^verbatim>\<open>'fix_h'\<close> with \<open>stp_cnt = 2000\<close> and the default cap of 1000 iterations.  The first
  sifting iteration centres the signal; from then on the mean envelope is zero and the
  counter of \<^verbatim>\<open>fix\<close> cannot reach 2000 within the cap.  When the iteration counter
  reaches 999 the run ends in \<open>AttributeError\<close>: no diagnostic is emitted and no mode is
  extracted.  The hypotheses are the four spline calls of the run, each on constant data.
\<close>

theorem memd_iteration_cap_raises:
  assumes "spline [- 1, 1, 3, 5, 7] [[0], [0], [0], [0], [0]] [1, 2, 3, 4, 5]
             = Inr [[0], [0], [0], [0], [0]]"
    and "spline [- 2, 0, 2, 4, 6, 8] [[1], [1], [1], [1], [1], [1]] [1, 2, 3, 4, 5]
             = Inr [[1], [1], [1], [1], [1]]"
    and "spline [- 1, 1, 3, 5, 7]
             [[- (1 / 2)], [- (1 / 2)], [- (1 / 2)], [- (1 / 2)], [- (1 / 2)]] [1, 2, 3, 4, 5]
             = Inr [[- (1 / 2)], [- (1 / 2)], [- (1 / 2)], [- (1 / 2)], [- (1 / 2)]]"
    and "spline [- 2, 0, 2, 4, 6, 8]
             [[1 / 2], [1 / 2], [1 / 2], [1 / 2], [1 / 2], [1 / 2]] [1, 2, 3, 4, 5]
             = Inr [[1 / 2], [1 / 2], [1 / 2], [1 / 2], [1 / 2]]"
  shows "memd spline [[s]] [[0], [1], [0], [1], [0]] 1 None ''fix_h'' sd sd2 tol 2000 1000
           = Some (Inl AttributeError)"
proof -
  let ?x = "[[0], [1], [0], [1], [0 :: real]]"
  let ?m = "[[- (1 / 2)], [1 / 2], [- (1 / 2)], [1 / 2], [- (1 / 2) :: real]]"
  let ?Z = "[[0], [0], [0], [0], [0 :: real]]"
  let ?crit = "\<lambda>N. criterion spline ''fix_h'' [1, 2, 3, 4, 5] sd sd2 tol [[s]] (Suc 0) 2000 N
                      (Suc 0)"
  have c0: "?crit N ?x 0 = (False, [[1 / 2], [1 / 2], [1 / 2], [1 / 2], [1 / 2]], 1)" for N
    by (simp add: criterion_def fix_h_zigzag[where spline = spline, OF assms(1,2)])
  have c1: "?crit N ?m c = (2000 \<le> c + 1, ?Z, c + 1)" for N c
    by (simp add: criterion_def fix_h_centred_zigzag[where spline = spline, OF assms(3,4)])
  have fixpt: "msub ?m ?Z = ?m" by (simp add: msub_def)
  have rest: "sift (?crit N) 1000 ?m False ?Z 2 1 = Inl AttributeError" for N
    by (rule sift_constant_mode_raises[where crit = "?crit N" and stp_cnt = 2000, OF c1 fixpt])
       simp_all
  have first: "sift (?crit N) 1000 ?x False [[1 / 2], [1 / 2], [1 / 2], [1 / 2], [1 / 2]] 1 0
                 = Inl AttributeError" for N
    by (subst sift.simps) (simp add: msub_def c1 rest)
  have ts: "too_small ?x ?x = Inr False"
    by (simp add: too_small_def max_abs_def)
  show ?thesis
    unfolding memd_def Let_def
    by (subst memd_loop.simps)
       (simp add: ncols_def time_axis_5 stop_emd_zigzag_seq c0 ts first)
qed

theorem memd_iteration_cap_raises_witness:
  "(\<lambda>tk zk t. Inr (replicate (length t) (hd zk))) [- 1, 1, 3, 5, 7] [[0], [0], [0], [0], [0]]
       [1, 2, 3, 4, 5 :: int] = (Inr [[0], [0], [0], [0], [0 :: real]] :: error + matrix)
   \<and> memd (\<lambda>tk zk t. Inr (replicate (length t) (hd zk))) [[3 / 4]] [[0], [1], [0], [1], [0]] 1
        None ''fix_h'' (3 / 40) (3 / 4) (3 / 40) 2000 1000
      = Some (Inl AttributeError)"
  using memd_iteration_cap_raises
          [of "\<lambda>tk zk t. Inr (replicate (length t) (hd zk))" "3 / 4" "3 / 40" "3 / 4" "3 / 40"]
  by simp

subsection \<open>Decomposition engine: the stopping criterion argument\<close>

text \<open>
  A residue without extrema along its single channel ends the outer loop, which
  appends it.
\<close>

lemma memd_loop_flat_residue:
  assumes "local_peaks [a, b, c, d, e] = Inr ([], [])"
  shows "memd_loop [[s]] (Suc 0) (Suc 0) crit maxnIMF MaxIt x
           ([[a], [b], [c], [d], [e]], q, nbit, n_imf, diags)
         = Some (Inr (diags, q @ [[[a, b, c, d, e]]]))"
proof -
  have st: "stop_emd [[a], [b], [c], [d], [e]] [[s]] (Suc 0) (Suc 0) = Inr True"
    by (simp add: stop_emd_def stop_emd_step_def direction_def make_dir_vectors_1d dot_def
        assms)
  have tr: "transpose [[a], [b], [c], [d], [e]] = [[a, b, c, d, e]]"
    by (simp add: transpose.simps)
  show ?thesis
    by (subst memd_loop.simps) (simp add: st tr)
qed

lemma local_peaks_flat:
  "local_peaks [0, 0, 0, 0, 0] = Inr ([], [])"
  "local_peaks [1 / 2, 1 / 2, 1 / 2, 1 / 2, 1 / 2] = Inr ([], [])"
  by code_simp+

text \<open>
  The verdicts of \<^verbatim>\<open>stop\<close> with its default thresholds on the signal
  \<open>0, 1, 0, 1, 0\<close> and on the signal less one half.  On the first the mean envelope is
  as large as the amplitude and sifting goes on; on the second it is zero.
\<close>

lemma stop_zigzag:
  assumes "spline [- 1, 1, 3, 5, 7] [[0], [0], [0], [0], [0]] [1, 2, 3, 4, 5]
             = Inr [[0], [0], [0], [0], [0]]"
    and "spline [- 2, 0, 2, 4, 6, 8] [[1], [1], [1], [1], [1], [1]] [1, 2, 3, 4, 5]
             = Inr [[1], [1], [1], [1], [1]]"
  shows "stop spline [[0], [1], [0], [1], [0]] [1, 2, 3, 4, 5] (3 / 40) (3 / 4) (3 / 40)
           [[s]] (Suc 0) N (Suc 0)
         = (False, [[1 / 2], [1 / 2], [1 / 2], [1 / 2], [1 / 2]])"
  by (simp add: stop_def envelope_mean_1d[where spline = spline, OF zigzag_envelopes] assms
      has_shape_def mscale_def madd_def msub_def zeros_def real_sqrt_divide)

lemma stop_centred_zigzag:
  assumes "spline [- 1, 1, 3, 5, 7]
             [[- (1 / 2)], [- (1 / 2)], [- (1 / 2)], [- (1 / 2)], [- (1 / 2)]] [1, 2, 3, 4, 5]
             = Inr [[- (1 / 2)], [- (1 / 2)], [- (1 / 2)], [- (1 / 2)], [- (1 / 2)]]"
    and "spline [- 2, 0, 2, 4, 6, 8]
             [[1 / 2], [1 / 2], [1 / 2], [1 / 2], [1 / 2], [1 / 2]] [1, 2, 3, 4, 5]
             = Inr [[1 / 2], [1 / 2], [1 / 2], [1 / 2], [1 / 2]]"
  shows "stop spline [[- (1 / 2)], [1 / 2], [- (1 / 2)], [1 / 2], [- (1 / 2)]] [1, 2, 3, 4, 5]
           (3 / 40) (3 / 4) (3 / 40) [[s]] (Suc 0) N (Suc 0)
         = (True, [[0], [0], [0], [0], [0]])"
  by (simp add: stop_def envelope_mean_1d[where spline = spline, OF centred_zigzag_envelopes]
      assms has_shape_def mscale_def madd_def msub_def zeros_def real_sqrt_divide)

text \<open>
  C10.  \<^verbatim>\<open>memd\<close> never checks its criterion argument.  With any string other than
  \<^verbatim>\<open>'stop'\<close> the run is the run of the outer loop in which every evaluation of a mode,
  the first of each mode and those of the sifting loop, is a call of \<^verbatim>\<open>fix\<close>; the
  string itself has no further influence, and no error or diagnostic arises from it.
\<close>

theorem memd_unknown_criterion_runs_fix:
  "stp_crit \<noteq> ''stop'' \<Longrightarrow>
     memd spline seq x ndir maxnIMF stp_crit sd sd2 tol stp_cnt MaxIterations
     = memd_loop seq ndir (ncols x)
         (\<lambda>m counter. fix_h spline m (map int [1..<length x + 1]) seq ndir stp_cnt counter
                        (length x) (ncols x))
         maxnIMF MaxIterations x (x, [], 0, 1, [])"
proof -
  assume ne: "stp_crit \<noteq> ''stop''"
  have "criterion spline stp_crit t sd sd2 tol seq ndir stp_cnt N N_dim
          = (\<lambda>m counter. fix_h spline m t seq ndir stp_cnt counter N N_dim)" for t N N_dim
    using ne by (intro ext) (simp add: criterion_def)
  then show ?thesis by (simp add: memd_def Let_def)
qed

text \<open>
  The meaningless name \<^verbatim>\<open>'banana'\<close> on the signal \<open>0, 1, 0, 1, 0\<close>, with
  \<open>stp_cnt = 1\<close> and a spline that returns the constant it is given: \<^verbatim>\<open>fix\<close> agrees at
  once and the first mode is the signal itself, where \<^verbatim>\<open>'stop'\<close> sifts once and
  extracts the signal less one half.
\<close>

theorem memd_unknown_criterion_runs_fix_witness:
  "''banana'' \<noteq> ''stop''
   \<and> memd (\<lambda>tk zk t. Inr (replicate (length t) (hd zk))) [[3 / 4]] [[0], [1], [0], [1], [0]] 1
        None ''banana'' (3 / 40) (3 / 4) (3 / 40) 1 1000
      = Some (Inr ([], [[[0, 1, 0, 1, 0]], [[0, 0, 0, 0, 0]]]))
   \<and> memd (\<lambda>tk zk t. Inr (replicate (length t) (hd zk))) [[3 / 4]] [[0], [1], [0], [1], [0]] 1
        None ''stop'' (3 / 40) (3 / 4) (3 / 40) 1 1000
      = Some (Inr ([], [[[- (1 / 2), 1 / 2, - (1 / 2), 1 / 2, - (1 / 2)]],
                        [[1 / 2, 1 / 2, 1 / 2, 1 / 2, 1 / 2]]]))"
proof -
  let ?cs = "\<lambda>(tk :: int list) (zk :: matrix) (t :: int list).
               (Inr (replicate (length t) (hd zk)) :: error + matrix)"
  let ?x = "[[0], [1], [0], [1], [0 :: real]]"
  have ts: "too_small ?x ?x = Inr False"
    by (simp add: too_small_def max_abs_def)
  have tr: "transpose ?x = [[0, 1, 0, 1, 0]]"
    by (simp add: transpose.simps)
  have f0: "fix_h ?cs ?x [1, 2, 3, 4, 5] [[3 / 4]] (Suc 0) 1 0 N (Suc 0)
              = (True, [[1 / 2], [1 / 2], [1 / 2], [1 / 2], [1 / 2]], 1)" for N
    by (subst fix_h_zigzag[where spline = ?cs]) simp_all
  have a: "memd_loop [[3 / 4]] 1 (ncols ?x)
             (\<lambda>m counter. fix_h ?cs m (map int [1..<length ?x + 1]) [[3 / 4]] 1 1 counter
                            (length ?x) (ncols ?x))
             None 1000 ?x (?x, [], 0, 1, [])
           = Some (Inr ([], [[[0, 1, 0, 1, 0]], [[0, 0, 0, 0, 0]]]))"
    by (subst memd_loop.simps)
       (simp add: ncols_def time_axis_5 stop_emd_zigzag_seq f0 ts sift_stopped tr msub_def
          memd_loop_flat_residue[OF local_peaks_flat(1)])
  have s0: "stop ?cs ?x [1, 2, 3, 4, 5] (3 / 40) (3 / 4) (3 / 40) [[3 / 4]] (Suc 0) N (Suc 0)
              = (False, [[1 / 2], [1 / 2], [1 / 2], [1 / 2], [1 / 2]])" for N
    by (subst stop_zigzag[where spline = ?cs]) simp_all
  have s1: "stop ?cs [[- (1 / 2)], [1 / 2], [- (1 / 2)], [1 / 2], [- (1 / 2)]] [1, 2, 3, 4, 5]
              (3 / 40) (3 / 4) (3 / 40) [[3 / 4]] (Suc 0) N (Suc 0)
              = (True, [[0], [0], [0], [0], [0]])" for N
    by (subst stop_centred_zigzag[where spline = ?cs]) simp_all
  have k0: "criterion ?cs ''stop'' [1, 2, 3, 4, 5] (3 / 40) (3 / 4) (3 / 40) [[3 / 4]]
              (Suc 0) 1 N (Suc 0) ?x 0
            = (False, [[1 / 2], [1 / 2], [1 / 2], [1 / 2], [1 / 2]], 0)" for N
    by (simp add: criterion_def s0)
  have sf: "sift (criterion ?cs ''stop'' [1, 2, 3, 4, 5] (3 / 40) (3 / 4) (3 / 40) [[3 / 4]]
                    (Suc 0) 1 N (Suc 0))
              1000 ?x False [[1 / 2], [1 / 2], [1 / 2], [1 / 2], [1 / 2]] 0 0
            = Inr ([[- (1 / 2)], [1 / 2], [- (1 / 2)], [1 / 2], [- (1 / 2)]], 1)" for N
    by (subst sift.simps) (simp add: msub_def criterion_def s1 sift_stopped)
  have trm: "transpose [[- (1 / 2)], [1 / 2], [- (1 / 2)], [1 / 2], [- (1 / 2 :: real)]]
               = [[- (1 / 2), 1 / 2, - (1 / 2), 1 / 2, - (1 / 2)]]"
    by (simp add: transpose.simps)
  have b: "memd ?cs [[3 / 4]] ?x 1 None ''stop'' (3 / 40) (3 / 4) (3 / 40) 1 1000
           = Some (Inr ([], [[[- (1 / 2), 1 / 2, - (1 / 2), 1 / 2, - (1 / 2)]],
                             [[1 / 2, 1 / 2, 1 / 2, 1 / 2, 1 / 2]]]))"
    unfolding memd_def Let_def
    by (subst memd_loop.simps)
       (simp add: ncols_def time_axis_5 stop_emd_zigzag_seq k0 ts sf trm msub_def
          memd_loop_flat_residue[OF local_peaks_flat(2)])
  show ?thesis
    using memd_unknown_criterion_runs_fix
            [of "''banana''" ?cs "[[3 / 4]]" ?x 1 None "3 / 40" "3 / 4" "3 / 40" 1 1000] a b
    by simp
qed

subsection \<open>Decomposition engine: reconstruction\<close>

text \<open>
  The exit of line 520 in general: when a mode \<open>m\<close> has been sifted from the residue
  \<open>r\<close> and the mode count reaches the cap, the list returned ends with \<open>m\<close> and with
  \<open>r\<close> itself, not with \<open>r - m\<close>.
\<close>

lemma memd_loop_cap_exit:
  assumes "stop_emd r seq ndir N_dim = Inr False" "too_small r x = Inr False"
    and "crit r 0 = (s, e, c)" "sift crit MaxIterations r s e c nbit = Inr (m, nb)"
    and "k \<le> n_imf + 1"
  shows "memd_loop seq ndir N_dim crit (Some k) MaxIterations x (r, q, nbit, n_imf, diags)
           = Some (Inr (diags, q @ [transpose m, transpose r]))"
  using assms by (subst memd_loop.simps) simp

lemma stop_emd_zigzag:
  "stop_emd [[0], [1], [0], [1], [0]] [[1 / 2]] (Suc 0) (Suc 0) = Inr False"
proof -
  have lp: "local_peaks [0, 1, 0, 1, 0] = Inr ([2], [1, 3])"
    by code_simp
  show ?thesis
    by (simp add: stop_emd_def stop_emd_step_def direction_def make_dir_vectors_1d dot_def lp)
qed

lemma transpose_zigzag: "transpose [[0], [1], [0], [1], [0 :: real]] = [[0, 1, 0, 1, 0]]"
  by code_simp

text \<open>
  C1.  The five-sample, one-channel signal \<open>0, 1, 0, 1, 0\<close> with a cap of two modes and
  no sifting iteration allowed: the first mode is the signal itself, the mode count
  reaches the cap, and the residue returned is the signal again.  The mode and the
  residue sum to twice the input.
\<close>

theorem memd_cap_breaks_reconstruction:
  "memd spline [[1 / 2]] [[0], [1], [0], [1], [0]] 1 (Some 2) stp_crit sd sd2 tol stp_cnt 0
     = Some (Inr ([], [[[0, 1, 0, 1, 0]], [[0, 1, 0, 1, 0]]]))
   \<and> madd [[0, 1, 0, 1, 0]] [[0, 1, 0, 1, 0]] \<noteq> [[0, 1, 0, 1, 0]]"
proof -
  have ts: "too_small [[0], [1], [0], [1], [0]] [[0], [1], [0], [1], [0]] = Inr False"
    by (simp add: too_small_def max_abs_def)
  have "memd spline [[1 / 2]] [[0], [1], [0], [1], [0]] 1 (Some 2) stp_crit sd sd2 tol stp_cnt 0
     = Some (Inr ([], [[[0, 1, 0, 1, 0]], [[0, 1, 0, 1, 0]]]))"
    unfolding memd_def Let_def
    by (subst memd_loop.simps)
       (simp add: ncols_def stop_emd_zigzag ts sift_no_budget transpose_zigzag
          split: prod.splits)
  moreover have "madd [[0, 1, 0, 1, 0]] [[0, 1, 0, 1, 0]] \<noteq> [[0, 1, 0, 1, 0]]"
    by (simp add: madd_def)
  ultimately show ?thesis by simp
qed

subsection \<open>Degenerate input\<close>

lemma bind_e_Inr: "bind_e x f = Inr v \<longleftrightarrow> (\<exists>u. x = Inr u \<and> f u = Inr v)"
  by (cases x) auto

lemma length_cumsum: "length (cumsum a vs) = length vs"
  by (induction vs arbitrary: a) auto

lemma fill_dir_ok:
  "(\<And>i. i \<in> set js \<Longrightarrow> 0 < i \<and> i < length d \<and> i - 1 < length tht)
     \<Longrightarrow> \<exists>d'. fill_dir tht d js = Inr d' \<and> length d' = length d"
proof (induction js arbitrary: d)
  case Nil
  then show ?case by simp
next
  case (Cons i js)
  have i: "0 < i" "i < length d" "i - 1 < length tht" using Cons.prems[of i] by auto
  let ?d = "d[i := sin (tht ! (i - 1)) * prod_list (map cos (slice_to tht (int i - 1)))]"
  have g: "getitem tht (int i - 1) = Inr (tht ! (i - 1))"
    using i by (auto simp add: getitem_def nat_diff_distrib')
  have s: "setitem d (int i) v = Inr (d[i := v])" for v
    using i by (simp add: setitem_def)
  have "\<exists>d'. fill_dir tht ?d js = Inr d' \<and> length d' = length ?d"
    by (rule Cons.IH) (use Cons.prems in auto)
  then show ?case by (simp add: g s)
qed

lemma make_dir_vectors_ok:
  assumes "it < length seq" "length (seq ! it) = N_dim" "0 < N_dim" "length d = N_dim"
  shows "\<exists>d'. make_dir_vectors seq (int it) N_dim d = Inr d' \<and> length d' = N_dim"
proof -
  let ?b = "map (\<lambda>s. 2 * s - 1) (seq ! it)"
  let ?tails = "rev (cumsum 0 (map (\<lambda>v. v ^ 2) (rev (tl ?b))))"
  let ?heads = "slice_to ?b (int N_dim - 1)"
  let ?tht = "map2 arctan2 (map sqrt ?tails) ?heads"
  have g: "getitem seq (int it) = Inr (seq ! it)" using assms(1) by (simp add: getitem_def)
  have lt: "length ?tails = N_dim - 1" using assms(2) by (simp add: length_cumsum)
  have lh: "length ?heads = N_dim - 1"
    using assms(2,3) by (auto simp add: slice_to_def clip_bound_def)
  have ltht: "length ?tht = N_dim - 1" using lt lh by simp
  have s0: "setitem d 0 1 = Inr (d[0 := 1])" using assms(3,4) by (simp add: setitem_def)
  have "\<exists>d'. fill_dir ?tht (d[0 := 1]) [Suc 0..<N_dim] = Inr d' \<and> length d' = length (d[0 := 1])"
    by (rule fill_dir_ok) (use assms(4) ltht in auto)
  then obtain d1 where d1: "fill_dir ?tht (d[0 := 1]) [Suc 0..<N_dim] = Inr d1" "length d1 = N_dim"
    using assms(4) by auto
  have sl: "setitem d1 (int N_dim - 1) v = Inr (d1[N_dim - 1 := v])" for v
    using d1(2) assms(3) by (auto simp add: setitem_def nat_diff_distrib')
  show ?thesis
    unfolding make_dir_vectors_def Let_def
    using lt lh by (simp add: g s0 d1 sl)
qed

lemma dir_vec3_ok:
  assumes "it < length seq" "length (seq ! it) = 3" "length d = 3"
  shows "\<exists>d'. dir_vec3 seq (int it) d = Inr d' \<and> length d' = 3"
proof -
  have g: "getitem seq (int it) = Inr (seq ! it)" using assms(1) by (simp add: getitem_def)
  obtain a b c where r: "seq ! it = [a, b, c]"
    using assms(2) by (cases "seq ! it"; cases "tl (seq ! it)"; cases "tl (tl (seq ! it))") auto
  show ?thesis using assms(1,3)
    by (simp add: dir_vec3_def r getitem_def setitem_def Let_def)
qed

lemma direction_ok:
  assumes "it < length seq" "length (seq ! it) = N_dim" "0 < N_dim" "length d = N_dim"
  shows "\<exists>d'. direction seq (int it) N_dim d = Inr d' \<and> length d' = N_dim"
  using assms make_dir_vectors_ok[OF assms] dir_vec3_ok[of it seq d]
  by (auto simp add: direction_def)

lemma dot_zeros: "length d = N_dim \<Longrightarrow> dot (zeros N N_dim) d = Inr (replicate N 0)"
proof -
  have z: "sum_list (map2 (*) (replicate k (0::real)) e) = 0" for k e
    by (induction k arbitrary: e) (auto simp add: zip_Cons1 split: list.splits)
  assume "length d = N_dim"
  then show ?thesis
    by (simp add: dot_def zeros_def list_all_iff z map_replicate_const)
qed

lemma local_peaks_zeros: "local_peaks (replicate N 0) = Inr ([], [])"
  by (simp add: local_peaks_def degenerate_def list_all_iff)

lemma replicate_update_same: "(replicate n a)[i := a] = replicate n a"
  by (cases "i < n") (auto simp add: list_eq_iff_nth_eq nth_list_update)

lemma stop_emd_loop_zeros:
  assumes "length seq = ndir" "list_all (\<lambda>row. length row = N_dim) seq" "0 < N_dim"
  shows "(\<And>it. it \<in> set its \<Longrightarrow> it < ndir) \<Longrightarrow> length d = N_dim
     \<Longrightarrow> \<exists>d'. stop_emd_loop (zeros N N_dim) seq N_dim (replicate ndir 0, d) its
               = Inr (replicate ndir 0, d') \<and> length d' = N_dim"
proof (induction its arbitrary: d)
  case Nil
  then show ?case by simp
next
  case (Cons it its)
  have it: "it < length seq" using Cons.prems(1)[of it] assms(1) by simp
  then have row: "length (seq ! it) = N_dim" using assms(2) by (simp add: list_all_length)
  obtain d1 where d1: "direction seq (int it) N_dim d = Inr d1" "length d1 = N_dim"
    using direction_ok[OF it row assms(3) Cons.prems(2)] by auto
  have step: "stop_emd_step (zeros N N_dim) seq N_dim (replicate ndir 0, d) it
                = Inr (replicate ndir 0, d1)"
    by (simp add: stop_emd_step_def d1 dot_zeros local_peaks_zeros replicate_update_same)
  have "\<exists>d'. stop_emd_loop (zeros N N_dim) seq N_dim (replicate ndir 0, d1) its
               = Inr (replicate ndir 0, d') \<and> length d' = N_dim"
    by (rule Cons.IH) (use Cons.prems d1 in auto)
  then show ?case by (simp add: step)
qed

lemma stop_emd_zeros:
  assumes "length seq = ndir" "list_all (\<lambda>row. length row = N_dim) seq" "0 < N_dim"
  shows "stop_emd (zeros N N_dim) seq ndir N_dim = Inr True"
proof -
  obtain d' where "stop_emd_loop (zeros N N_dim) seq N_dim (replicate ndir 0, replicate N_dim 0)
                     [0..<ndir] = Inr (replicate ndir 0, d')"
    using stop_emd_loop_zeros[OF assms, of "[0..<ndir]" "replicate N_dim 0" N] by auto
  then show ?thesis by (simp add: stop_emd_def list_all_iff)
qed

lemma transpose_zeros: "0 < N \<Longrightarrow> transpose (zeros N N_dim) = zeros N_dim N"
proof -
  assume n: "0 < N"
  have "transpose (zeros N N_dim)
          = map (\<lambda>i. map (\<lambda>j. zeros N N_dim ! j ! i) [0..<length (zeros N N_dim)]) [0..<N_dim]"
    by (rule transpose_rectangle) (use n in \<open>auto simp add: zeros_def\<close>)
  also have "\<dots> = zeros N_dim N"
    by (simp add: zeros_def list_eq_iff_nth_eq)
  finally show ?thesis .
qed

lemma ncols_zeros: "0 < N \<Longrightarrow> ncols (zeros N N_dim) = N_dim"
  by (cases N) (simp_all add: ncols_def zeros_def)

text \<open>
  C9.  For an all-zero input with at least one sample and one channel, and a sample
  array of \<open>ndir\<close> rows and \<open>N_dim\<close> columns, the outer test is true at once and
  \<^verbatim>\<open>memd\<close> returns, without a diagnostic, the single transposed zero residue.
\<close>

theorem memd_zero_input:
  assumes "0 < N" "0 < N_dim" "length seq = ndir" "list_all (\<lambda>row. length row = N_dim) seq"
  shows "stop_emd (zeros N N_dim) seq ndir N_dim = Inr True
         \<and> memd spline seq (zeros N N_dim) ndir maxnIMF stp_crit sd sd2 tol stp_cnt MaxIterations
           = Some (Inr ([], [zeros N_dim N]))"
proof -
  have s: "stop_emd (zeros N N_dim) seq ndir N_dim = Inr True"
    by (rule stop_emd_zeros[OF assms(3,4,2)])
  have "memd spline seq (zeros N N_dim) ndir maxnIMF stp_crit sd sd2 tol stp_cnt MaxIterations
           = Some (Inr ([], [zeros N_dim N]))"
    unfolding memd_def Let_def
    by (subst memd_loop.simps) (simp add: ncols_zeros assms s transpose_zeros)
  with s show ?thesis by simp
qed

theorem memd_zero_input_witness:
  "(0::nat) < 4 \<and> (0::nat) < 2 \<and> length [[1 / 2, 1 / 3], [1 / 4, 2 / 3 :: real]] = 2
   \<and> list_all (\<lambda>row. length row = 2) [[1 / 2, 1 / 3], [1 / 4, 2 / 3 :: real]]
   \<and> stop_emd (zeros 4 2) [[1 / 2, 1 / 3], [1 / 4, 2 / 3]] 2 2 = Inr True
   \<and> memd (\<lambda>tk zk t. Inl ValueError) [[1 / 2, 1 / 3], [1 / 4, 2 / 3]] (zeros 4 2) 2 None ''stop''
        (3 / 40) (3 / 4) (3 / 40) 2 1000
      = Some (Inr ([], [zeros 2 4]))"
  using memd_zero_input
          [of 4 2 "[[1 / 2, 1 / 3], [1 / 4, 2 / 3]]" 2 "\<lambda>tk zk t. Inl ValueError" None "''stop''"
              "3 / 40" "3 / 4" "3 / 40" 2 1000]
  by simp

subsection \<open>Envelope estimator: directions with too few extrema\<close>

text \<open>
  C6.  A mode of four zero samples on one channel, one direction, the time axis
  \<open>1, 2, 3, 4\<close>.  Its projection has no extrema, so the direction is one of those the
  loop should count as failed, and the result should be the all-zero envelope.
  But the zero crossings are counted before the extrema are looked at, and on a
  projection with two adjacent exact zeros line 117 builds an array from the ragged
  list \<^verbatim>\<open>[0,zer,0]\<close>: \<^verbatim>\<open>envelope_mean\<close> raises \<open>ValueError\<close> and returns nothing.
\<close>

theorem envelope_mean_flat_mode_raises:
  "local_peaks [0, 0, 0, 0] = Inr ([], [])
   \<and> envelope_mean spline [[0], [0], [0], [0]] [1, 2, 3, 4] [[s]] 1 4 1 = Inl ValueError"
proof -
  have lp: "local_peaks [0, 0, 0, 0] = Inr ([], [])"
    by code_simp
  have zc: "zero_crossings [0, 0, 0, 0] = Inl ValueError"
    by (simp add: zero_crossings_def where_idx_def Let_def upt_conv_Cons)
  have "envelope_mean spline [[0], [0], [0], [0]] [1, 2, 3, 4] [[s]] 1 4 1 = Inl ValueError"
    by (simp add: envelope_mean_def envelope_step_def direction_def make_dir_vectors_1d
        dot_def lp zc)
  with lp show ?thesis by simp
qed

end
